theory Spec2Isabelle
  imports Main "HOL-Library.Sublist"
begin

section \<open>Strings as Python uses them\<close>

text \<open>
  Strings are \<^typ>\<open>string\<close>; a character is one code point below 256, so the
  model covers command text in that range. \<open>str.split()\<close> with no argument cuts at
  runs of whitespace and never returns an empty token; below 256 the whitespace
  characters are the space, U+0009 to U+000D, U+001C to U+001F, U+0085 and U+00A0.
\<close>

definition isspace :: "char \<Rightarrow> bool" where
  "isspace ch = (ch \<in> set [CHR '' '', CHR 0x09, CHR 0x0A, CHR 0x0B, CHR 0x0C, CHR 0x0D,
                             CHR 0x1C, CHR 0x1D, CHR 0x1E, CHR 0x1F, CHR 0x85, CHR 0xA0])"

fun split_from :: "string \<Rightarrow> string \<Rightarrow> string list" where
  "split_from cur [] = (if cur = [] then [] else [cur])"
| "split_from cur (ch # cs) =
     (if isspace ch then (if cur = [] then split_from [] cs else cur # split_from [] cs)
      else split_from (cur @ [ch]) cs)"

definition str_split :: "string \<Rightarrow> string list" where
  "str_split s = split_from [] s"

text \<open>\<open>sep.join(xs)\<close>.\<close>

fun join :: "string \<Rightarrow> string list \<Rightarrow> string" where
  "join sep [] = []"
| "join sep [x] = x"
| "join sep (x # y # ys) = x @ sep @ join sep (y # ys)"

definition startswith :: "string \<Rightarrow> string \<Rightarrow> bool" where
  "startswith s p = prefix p s"

text \<open>\<open>str(n)\<close> of a Python int: decimal digits, a minus sign when negative.\<close>

definition digit_char :: "nat \<Rightarrow> char" where
  "digit_char d = ''0123456789'' ! d"

function str_nat :: "nat \<Rightarrow> string" where
  "str_nat n = (if n < 10 then [digit_char n] else str_nat (n div 10) @ [digit_char (n mod 10)])"
  by pat_completeness auto
termination
  by (relation "measure id") auto

declare str_nat.simps [simp del]

definition str_int :: "int \<Rightarrow> string" where
  "str_int i = (if i < 0 then CHR ''-'' # str_nat (nat (- i)) else str_nat (nat i))"

text \<open>Truthiness of an optional string: \<open>None\<close> and \<open>""\<close> are false.\<close>

fun truthy :: "string option \<Rightarrow> bool" where
  "truthy None = False"
| "truthy (Some s) = (s \<noteq> [])"

section \<open>\<open>csv.reader\<close> on one line\<close>

text \<open>
  \<open>csv.reader([line], delimiter=" ")\<close> with the default dialect otherwise (quote
  character \<open>"\<close>, doubled quotes, not strict), following the reader's state machine.
  The line is built by joining whitespace-free tokens with single spaces, so it holds
  no line break and the states that eat line ends are not reached. The empty line
  gives the empty row.
\<close>

datatype csv_state = START_RECORD | START_FIELD | IN_FIELD | IN_QUOTED_FIELD | QUOTE_IN_QUOTED_FIELD

fun parse_process :: "csv_state \<Rightarrow> string \<Rightarrow> string list \<Rightarrow> string \<Rightarrow> string list" where
  "parse_process START_RECORD field fields [] = fields"
| "parse_process st field fields [] = fields @ [field]"
| "parse_process START_RECORD field fields (ch # cs) =
     (if ch = CHR 0x22 then parse_process IN_QUOTED_FIELD field fields cs
      else if ch = CHR '' '' then parse_process START_FIELD [] (fields @ [field]) cs
      else parse_process IN_FIELD (field @ [ch]) fields cs)"
| "parse_process START_FIELD field fields (ch # cs) =
     (if ch = CHR 0x22 then parse_process IN_QUOTED_FIELD field fields cs
      else if ch = CHR '' '' then parse_process START_FIELD [] (fields @ [field]) cs
      else parse_process IN_FIELD (field @ [ch]) fields cs)"
| "parse_process IN_FIELD field fields (ch # cs) =
     (if ch = CHR '' '' then parse_process START_FIELD [] (fields @ [field]) cs
      else parse_process IN_FIELD (field @ [ch]) fields cs)"
| "parse_process IN_QUOTED_FIELD field fields (ch # cs) =
     (if ch = CHR 0x22 then parse_process QUOTE_IN_QUOTED_FIELD field fields cs
      else parse_process IN_QUOTED_FIELD (field @ [ch]) fields cs)"
| "parse_process QUOTE_IN_QUOTED_FIELD field fields (ch # cs) =
     (if ch = CHR 0x22 then parse_process IN_QUOTED_FIELD (field @ [ch]) fields cs
      else if ch = CHR '' '' then parse_process START_FIELD [] (fields @ [field]) cs
      else parse_process IN_FIELD (field @ [ch]) fields cs)"

definition csv_reader :: "string \<Rightarrow> string list" where
  "csv_reader line = parse_process START_RECORD [] [] line"

section \<open>Configuration, help strings and storage\<close>

record Config =
  admins :: "string list"
  coordinators :: "string list"
  server_name :: string
  command_prefix :: string
  user_id :: string
  homeserver_url :: string
  user_token :: string
  keycloak_enabled :: bool
  keycloak_signup_enabled :: bool
  keycloak_signup_url :: string
  page_valid_days :: "int option"

text \<open>
  The module \<open>help_strings\<close> is not part of the sources: its constants are parameters.
  \<open>HELP_ROOMS_RECREATE_CONFIRM\<close> is a template filled with the command prefix.
\<close>

record help_strings =
  HELP_HELP :: string
  HELP_INVITE :: string
  HELP_ROOMS :: string
  HELP_SPACES :: string
  HELP_ROOMS_RECREATE :: string
  HELP_ROOMS_RECREATE_CONFIRM :: "string \<Rightarrow> string"
  HELP_ROOMS_UNLINK :: string
  HELP_USERS :: string
  HELP_USERS_CREATE :: string
  HELP_USERS_INVITE :: string
  HELP_USERS_SIGNUPLINK :: string
  HELP_USERS_KEYCLOAK_DISABLED :: string
  HELP_USERS_KEYCLOAK_SIGNUP_DISABLED :: string

definition TEXT_PERMISSION_DENIED :: string where
  "TEXT_PERMISSION_DENIED = ''I'' @ [CHR 0x27] @ ''m afraid I cannot let you do that.''"

definition HELP_POWER :: string where
  "HELP_POWER = ''Set power level in a room. Usage:'' @ [CHR 0x0A, CHR 0x0A]
     @ [CHR 0x60] @ ''power <user> <room> [<level>]'' @ [CHR 0x60] @ [CHR 0x0A, CHR 0x0A]
     @ ''* '' @ [CHR 0x60] @ ''user'' @ [CHR 0x60] @ '' is the user ID, example ''
     @ [CHR 0x60] @ ''@user:example.tld'' @ [CHR 0x60] @ [CHR 0x0A]
     @ ''* '' @ [CHR 0x60] @ ''room'' @ [CHR 0x60] @ '' is a room alias or ID, example ''
     @ [CHR 0x60] @ ''#room:example.tld'' @ [CHR 0x60]
     @ ''. Bot must have power to give power there.'' @ [CHR 0x0A]
     @ ''* '' @ [CHR 0x60] @ ''level'' @ [CHR 0x60] @ '' is optional and defaults to ''
     @ [CHR 0x60] @ ''moderator'' @ [CHR 0x60] @ ''.'' @ [CHR 0x0A, CHR 0x0A]
     @ ''Moderator rights can be given by coordinator level users. To give admin in a room, user must be admin of the bot.''
     @ [CHR 0x0A]"

text \<open>
  Modelled from the spec: the storage class (\<open>bubo/storage.py\<close>) is not part of the
  sources. The spec names its tables: recreate requests (room id, requester, timestamp,
  applied flag, false by default), the event-id-to-room-id mapping of breakout rooms,
  tracked groups (name, alias, title) and tracked rooms and spaces (room id, display
  name, alias, space flag). A table is a list of rows; a lookup returns the first row
  of the key, a delete removes every row of the key, a store appends a row. The
  write of the breakout mapping may fail (it is defined with the outside world, below);
  the other operations are total.
\<close>

record recreate_request =
  request_room_id :: string
  requester :: string
  timestamp :: int
  applied :: bool

record room_row =
  row_room_id :: string
  row_name :: string
  row_alias :: string
  row_is_space :: bool

record Storage =
  recreate_rooms :: "recreate_request list"
  breakout_rooms :: "(string \<times> string) list"
  communities :: "(string \<times> string \<times> string) list"
  rooms :: "room_row list"

definition get_recreate_room :: "Storage \<Rightarrow> string \<Rightarrow> recreate_request option" where
  "get_recreate_room st rid = find (\<lambda>r. request_room_id r = rid) (recreate_rooms st)"

definition delete_recreate_room :: "Storage \<Rightarrow> string \<Rightarrow> Storage" where
  "delete_recreate_room st rid =
     st\<lparr>recreate_rooms := filter (\<lambda>r. request_room_id r \<noteq> rid) (recreate_rooms st)\<rparr>"

definition store_recreate_room :: "int \<Rightarrow> Storage \<Rightarrow> string \<Rightarrow> string \<Rightarrow> Storage" where
  "store_recreate_room now st who rid =
     st\<lparr>recreate_rooms := recreate_rooms st @
        [\<lparr>request_room_id = rid, requester = who, timestamp = now, applied = False\<rparr>]\<rparr>"

definition store_community :: "Storage \<Rightarrow> string \<Rightarrow> string \<Rightarrow> string \<Rightarrow> Storage" where
  "store_community st name alias title = st\<lparr>communities := communities st @ [(name, alias, title)]\<rparr>"

definition get_rooms :: "Storage \<Rightarrow> bool \<Rightarrow> room_row list" where
  "get_rooms st spaces = filter (\<lambda>r. row_is_space r = spaces) (rooms st)"

definition get_room :: "Storage \<Rightarrow> string \<Rightarrow> room_row option" where
  "get_room st rid = find (\<lambda>r. row_room_id r = rid) (rooms st)"

definition unlink_room :: "Storage \<Rightarrow> string \<Rightarrow> Storage" where
  "unlink_room st rid = st\<lparr>rooms := filter (\<lambda>r. row_room_id r \<noteq> rid) (rooms st)\<rparr>"

section \<open>The outside world\<close>

datatype py_exn = AttributeError | ProtocolError | IndexError | KeyError | ValueError
  | OtherException string

text \<open>What \<open>set_user_power\<close> may answer: two error responses carrying a message, the
  success response, a bare status code, or anything else (its rendering is carried).\<close>

datatype power_response = RoomPutStateError string | RoomGetStateEventError string
  | RoomPutStateResponse | StatusCode int | UnexpectedResponse string

record kc_user =
  username :: string
  kc_id :: string

text \<open>
  Calls that change something outside the bot are recorded, in order, with their
  arguments. The room tuple of \<open>ensure_room_exists\<close> keeps its non-\<open>None\<close> positions:
  name, alias, parent, the two flags and the type.
\<close>

datatype effect =
    SendText string string
  | CreateBreakoutRoom string string
  | EnsureRoomExists "string \<times> string \<times> string \<times> bool \<times> bool \<times> string"
  | SetUserPower string string int
  | InviteToRoom string string string string
  | RecreateRoom string string
  | RoomLeave string
  | SendUpdateAccount string
  | CreateSignupPage string int "int option"
  | SendPlainEmail string string

text \<open>
  The collaborators outside the sources (\<open>bubo.rooms\<close>, \<open>bubo.utils\<close>,
  \<open>bubo.chat_functions\<close>, the matrix client, \<open>email_validator\<close>, \<open>requests\<close>, the
  Keycloak client, the clock) are parameters: each field gives what the collaborator
  answers. The homeserver's groups and the identity provider keep a state of type
  \<open>'x\<close> that the creating calls may change (\<open>requests.post\<close> to \<open>create_group\<close>
  answers a status code and a content, \<open>keycloak_admin.create_user\<close> a user id).
  An exception a collaborator raises is \<open>Inl\<close>: its kind where the caller tells kinds
  apart, its text where the caller prints it. \<open>ensure_room_exists\<close> and
  \<open>recreate_room\<close> are handed the store and may change it.
\<close>

record 'x World =
  time_time :: int
  send_text_event_id :: "string \<Rightarrow> string \<Rightarrow> string option"
  create_breakout_room_id :: "string \<Rightarrow> string \<Rightarrow> string"
  ensure_room_exists_ext ::
    "string \<times> string \<times> string \<times> bool \<times> bool \<times> string \<Rightarrow> Storage \<Rightarrow> (string \<times> string) \<times> Storage"
  recreate_room_ext :: "string \<Rightarrow> string \<Rightarrow> Storage \<Rightarrow> string option \<times> Storage"
  ensure_room_id_ext :: "string \<Rightarrow> py_exn + string"
  room_resolve_alias_ext :: "string \<Rightarrow> string option"
  set_user_power_ext :: "string \<Rightarrow> string \<Rightarrow> int \<Rightarrow> power_response"
  check_user_id_ext :: "string \<Rightarrow> bool"
  get_room_power_levels_ext :: "string \<Rightarrow> (string \<times> int) list option"
  joined_members_ext :: "string \<Rightarrow> string list option"
  validate_email_ext :: "string \<Rightarrow> string + string"
  requests_get :: "'x \<Rightarrow> string \<Rightarrow> nat"
  requests_post_create_group ::
    "'x \<Rightarrow> string \<Rightarrow> string \<times> string \<times> string \<times> string option \<Rightarrow> (nat \<times> string) \<times> 'x"
  keycloak_get_users :: "'x \<Rightarrow> (string \<times> string) option \<Rightarrow> string + kc_user list"
  keycloak_create_user :: "'x \<Rightarrow> string \<Rightarrow> string \<Rightarrow> string option \<times> 'x"
  signup_pages_post :: "string \<Rightarrow> int \<Rightarrow> int option \<Rightarrow> string + string"
  invite_link_email :: "string \<Rightarrow> string"
  send_plain_email_ext :: "string \<Rightarrow> string \<Rightarrow> string option"
  store_breakout_room_error :: "string \<Rightarrow> string \<Rightarrow> py_exn option"

record 'x State =
  store :: Storage
  effects :: "effect list"
  backend :: 'x
  raised :: "py_exn option"

text \<open>
  Modelled from the spec: \<open>store_breakout_room\<close> of the storage class, which is not part
  of the sources. It appends the pair of event id and room id to the mapping. The spec
  counts a storage write that fails after the room was created among the failures
  (internal persistence failure), so the write may raise: the world says with which
  exception, if any.
\<close>

definition store_breakout_room ::
  "'x World \<Rightarrow> Storage \<Rightarrow> string \<Rightarrow> string \<Rightarrow> py_exn + Storage" where
  "store_breakout_room w st event rid =
     (case store_breakout_room_error w event rid of
        Some e \<Rightarrow> Inl e
      | None \<Rightarrow> Inr (st\<lparr>breakout_rooms := breakout_rooms st @ [(event, rid)]\<rparr>))"

section \<open>The command\<close>

record Command =
  config :: Config
  command :: string
  room_id :: string
  sender :: string
  event_id :: string

text \<open>\<open>self.args = self.command.split()[1:]\<close>\<close>

definition args :: "Command \<Rightarrow> string list" where
  "args c = drop 1 (str_split (command c))"

definition send_text_to_room :: "'x World \<Rightarrow> string \<Rightarrow> string \<Rightarrow> 'x State \<Rightarrow> string option \<times> 'x State" where
  "send_text_to_room w rid text s =
     (send_text_event_id w rid text, s\<lparr>effects := effects s @ [SendText rid text]\<rparr>)"

text \<open>\<open>await send_text_to_room(self.client, self.room.room_id, text)\<close> with the event id dropped.\<close>

definition reply :: "'x World \<Rightarrow> Command \<Rightarrow> string \<Rightarrow> 'x State \<Rightarrow> 'x State" where
  "reply w c text s = snd (send_text_to_room w (room_id c) text s)"

text \<open>
  Modelled from the spec: \<open>get_users_for_access\<close> (\<open>bubo/utils.py\<close>) is not part of the
  sources. The spec gives each tier an externally supplied membership set, looked up
  afresh at every check, and orders the tiers: admin implies permission for everything
  coordinator permits. So the lookup for the coordinator tier holds the admin members
  too; an unknown tier has no members.
\<close>

definition get_users_for_access :: "Config \<Rightarrow> string \<Rightarrow> string list" where
  "get_users_for_access cfg access_type =
     (if access_type = ''admins'' then admins cfg
      else if access_type = ''coordinators'' then admins cfg @ coordinators cfg
      else [])"

definition Command_ensure_admin :: "'x World \<Rightarrow> Command \<Rightarrow> 'x State \<Rightarrow> bool \<times> 'x State" where
  "Command_ensure_admin w c s =
     (let admin_users = get_users_for_access (config c) ''admins'' in
      if sender c \<notin> set admin_users
      then (False, reply w c (TEXT_PERMISSION_DENIED @ '' Admin level access needed.'') s)
      else (True, s))"

definition Command_ensure_coordinator :: "'x World \<Rightarrow> Command \<Rightarrow> 'x State \<Rightarrow> bool \<times> 'x State" where
  "Command_ensure_coordinator w c s =
     (let allowed_users = get_users_for_access (config c) ''coordinators'' in
      if sender c \<notin> set allowed_users
      then (False, reply w c (TEXT_PERMISSION_DENIED @ '' Coordinator level access needed.'') s)
      else (True, s))"

subsection \<open>Recreating a room\<close>

definition recreate_room :: "'x World \<Rightarrow> Command \<Rightarrow> 'x State \<Rightarrow> string option \<times> 'x State" where
  "recreate_room w c s =
     (case recreate_room_ext w (room_id c) (event_id c) (store s) of
        (new_room_id, st) \<Rightarrow>
          (new_room_id,
           s\<lparr>store := st, effects := effects s @ [RecreateRoom (room_id c) (event_id c)]\<rparr>))"

definition TEXT_ALREADY_RECREATED :: string where
  "TEXT_ALREADY_RECREATED = ''Can only recreate a room once, this room has already been recreated.''"

definition TEXT_CONFIRM_BEFORE_REQUEST :: string where
  "TEXT_CONFIRM_BEFORE_REQUEST = ''Cannot confirm room recreate before requesting room recreate.''"

definition TEXT_CONFIRM_BY_REQUESTER :: string where
  "TEXT_CONFIRM_BY_REQUESTER = ''Room recreate confirm must be given by the room recreate requester.''"

definition TEXT_CONFIRM_WINDOW :: string where
  "TEXT_CONFIRM_WINDOW =
     ''Room recreate confirmation must be given within 60 seconds. Please request recreation again.''"

definition TEXT_RECREATE_FAILED :: string where
  "TEXT_RECREATE_FAILED = ''Failed to create new room. Please see logs or contact support.''"

definition Command_recreate_room ::
  "'x World \<Rightarrow> help_strings \<Rightarrow> Command \<Rightarrow> string option \<Rightarrow> 'x State \<Rightarrow> 'x State" where
  "Command_recreate_room w H c subcommand s =
     (case Command_ensure_admin w c s of (ok, s1) \<Rightarrow>
      if \<not> ok then s1
      else if \<not> truthy subcommand then
        (case get_recreate_room (store s1) (room_id c) of
           Some room \<Rightarrow>
             if applied room then reply w c TEXT_ALREADY_RECREATED s1
             else reply w c (HELP_ROOMS_RECREATE_CONFIRM H (command_prefix (config c)))
                    (s1\<lparr>store := store_recreate_room (time_time w)
                                   (delete_recreate_room (store s1) (room_id c))
                                   (sender c) (room_id c)\<rparr>)
         | None \<Rightarrow>
             reply w c (HELP_ROOMS_RECREATE_CONFIRM H (command_prefix (config c)))
               (s1\<lparr>store := store_recreate_room (time_time w) (store s1) (sender c) (room_id c)\<rparr>))
      else if subcommand \<noteq> Some ''confirm'' then
        reply w c (''Unknown subcommand. Usage:'' @ [CHR 0x0A, CHR 0x0A] @ HELP_ROOMS_RECREATE H) s1
      else
        (case get_recreate_room (store s1) (room_id c) of
           None \<Rightarrow> reply w c TEXT_CONFIRM_BEFORE_REQUEST s1
         | Some room \<Rightarrow>
             if requester room \<noteq> sender c then reply w c TEXT_CONFIRM_BY_REQUESTER s1
             else if time_time w - timestamp room > 60 then reply w c TEXT_CONFIRM_WINDOW s1
             else
               (case recreate_room w c s1 of (new_room_id, s2) \<Rightarrow>
                  if \<not> truthy new_room_id then reply w c TEXT_RECREATE_FAILED s2 else s2)))"

subsection \<open>Breakout rooms\<close>

definition breakout_help_text :: string where
  "breakout_help_text =
     ''Creates a breakout room. Usage:'' @ [CHR 0x0A, CHR 0x0A]
     @ ''breakout TOPIC'' @ [CHR 0x0A, CHR 0x0A]
     @ ''For example:'' @ [CHR 0x0A, CHR 0x0A]
     @ ''breakout Bot'' @ [CHR 0x27] @ ''s are cool'' @ [CHR 0x0A, CHR 0x0A]
     @ ''Any remaining text after the '' @ [CHR 0x60] @ ''breakout'' @ [CHR 0x60]
     @ '' command will be used as the name of the room. ''
     @ ''The user requesting the breakout room will be automatically invited to the new room ''
     @ ''and made admin. ''
     @ ''Other users can react to the bot response message with any emoji reaction to ''
     @ ''get invited to the room.''"

definition breakout_created_text :: "string \<Rightarrow> string" where
  "breakout_created_text name =
     ''Breakout room '' @ [CHR 0x27] @ name @ [CHR 0x27] @ '' created!'' @ [CHR 0x0A]
     @ [CHR 0x0A, CHR 0x0A]
     @ ''React to this message with any emoji reaction to get invited to the room.''"

definition breakout_store_failed_text :: string where
  "breakout_store_failed_text =
     ''*Error: failed to store breakout room data. The room was created, ''
     @ ''but invites via reactions will not work.*''"

definition Command_breakout :: "'x World \<Rightarrow> Command \<Rightarrow> 'x State \<Rightarrow> 'x State" where
  "Command_breakout w c s =
     (case args c of
        [] \<Rightarrow> reply w c breakout_help_text s
      | a0 # rest \<Rightarrow>
          if a0 = ''help'' then reply w c breakout_help_text s
          else
            (let name = join '' '' (args c);
                 new_room = create_breakout_room_id w name (sender c);
                 s1 = s\<lparr>effects := effects s @ [CreateBreakoutRoom name (sender c)]\<rparr>
             in case send_text_to_room w (room_id c) (breakout_created_text name) s1 of
                  (event, s2) \<Rightarrow>
                    (case event of
                       None \<Rightarrow> reply w c breakout_store_failed_text s2
                     | Some ev \<Rightarrow>
                         if ev \<noteq> []
                         then
                           (case store_breakout_room w (store s2) ev new_room of
                              Inl e \<Rightarrow> s2\<lparr>raised := Some e\<rparr>
                            | Inr st \<Rightarrow> s2\<lparr>store := st\<rparr>)
                         else reply w c breakout_store_failed_text s2)))"

subsection \<open>Communities\<close>

text \<open>
  \<open>ensure_community_exists\<close> of \<open>communities.py\<close>. The community tuple keeps the
  positions the function reads: name, alias, title, description. The authorization
  header is the same in both requests and is part of what the world answers to.
\<close>

definition ensure_community_exists ::
  "'x World \<Rightarrow> Config \<Rightarrow> string \<times> string \<times> string \<times> string option \<Rightarrow> 'x
     \<Rightarrow> (string \<times> string option) \<times> 'x" where
  "ensure_community_exists w cfg community b =
     (case community of (name, alias, title, description) \<Rightarrow>
        (let api_prefix = homeserver_url cfg @ ''/_matrix/client/r0'' in
         if requests_get w b
              (api_prefix @ ''/groups/+'' @ alias @ '':'' @ server_name cfg @ ''/profile'') = 200
         then ((''exists'', None), b)
         else
           (case requests_post_create_group w b (api_prefix @ ''/create_group'')
                   (alias, name, title, description) of
              ((status_code, content), b1) \<Rightarrow>
                if status_code > 201
                then ((''error'', Some (str_nat status_code @ '' / '' @ content)), b1)
                else ((''created'', None), b1))))"

definition communities_deprecated :: string where
  "communities_deprecated =
     ''NOTE! Communities support is deprecated and will be removed in Bubo v0.4.0.''
     @ [CHR 0x0A, CHR 0x0A]"

definition communities_usage_text :: string where
  "communities_usage_text =
     communities_deprecated
     @ ''Wrong number of arguments. Usage:'' @ [CHR 0x0A, CHR 0x0A]
     @ [CHR 0x60] @ ''communities create NAME ALIAS TITLE'' @ [CHR 0x60] @ [CHR 0x0A, CHR 0x0A]
     @ ''For example:'' @ [CHR 0x0A, CHR 0x0A]
     @ ''communities create '' @ [CHR 0x22] @ ''My epic community'' @ [CHR 0x22]
     @ '' epic-community '' @ [CHR 0x22] @ ''The best community ever!'' @ [CHR 0x22]
     @ [CHR 0x0A, CHR 0x0A]
     @ ''Note, ALIAS should only contain lower case ascii characters and dashes (maybe).''"

definition community_id_text :: "Config \<Rightarrow> string \<Rightarrow> string \<Rightarrow> string" where
  "community_id_text cfg name alias = name @ '' (+'' @ alias @ '':'' @ server_name cfg @ '')''"

definition communities_list_text :: "Config \<Rightarrow> Storage \<Rightarrow> string" where
  "communities_list_text cfg st =
     communities_deprecated
     @ ''I currently maintain the following communities:'' @ [CHR 0x0A, CHR 0x0A]
     @ concat (map (\<lambda>(name, alias, title).
         ''* '' @ name @ '' / +'' @ alias @ '':'' @ server_name cfg @ '' / '' @ title @ [CHR 0x0A])
         (communities st))"

definition Command_communities :: "'x World \<Rightarrow> Command \<Rightarrow> 'x State \<Rightarrow> 'x State" where
  "Command_communities w c s =
     (case Command_ensure_coordinator w c s of (ok, s1) \<Rightarrow>
      if \<not> ok then s1
      else
        (case args c of
           [] \<Rightarrow> reply w c (communities_list_text (config c) (store s1)) s1
         | a0 # rest \<Rightarrow>
             if a0 = ''create'' then
               (let params = csv_reader (join '' '' rest) in
                if (if length params \<noteq> 3 then True else params ! 0 = ''help'')
                then reply w c communities_usage_text s1
                else
                  (case ensure_community_exists w (config c)
                          (params ! 0, params ! 1, params ! 2, None) (backend s1) of
                     ((result, error), b) \<Rightarrow>
                       (let s2 = s1\<lparr>backend := b\<rparr> in
                        if result = ''created'' then
                          reply w c
                            (communities_deprecated @ ''Community ''
                               @ community_id_text (config c) (params ! 0) (params ! 1)
                               @ '' created successfully.'')
                            (s2\<lparr>store := store_community (store s2)
                                             (params ! 0) (params ! 1) (params ! 2)\<rparr>)
                        else if result = ''exists'' then
                          reply w c
                            (communities_deprecated @ ''Sorry! Community ''
                               @ community_id_text (config c) (params ! 0) (params ! 1)
                               @ '' already exists.'') s2
                        else
                          reply w c (''Error creating community: ''
                               @ (case error of None \<Rightarrow> ''None'' | Some e \<Rightarrow> e)) s2)))
             else reply w c ''Unknown subcommand!'' s1))"

subsection \<open>Invites\<close>

definition invite_to_room ::
  "string \<Rightarrow> string \<Rightarrow> string \<Rightarrow> string \<Rightarrow> 'x State \<Rightarrow> 'x State" where
  "invite_to_room rid user command_room_id room_alias s =
     s\<lparr>effects := effects s @ [InviteToRoom rid user command_room_id room_alias]\<rparr>"

fun invite_users ::
  "'x World \<Rightarrow> Command \<Rightarrow> string \<Rightarrow> string \<Rightarrow> string list \<Rightarrow> 'x State \<Rightarrow> 'x State" where
  "invite_users w c rid alias [] s = s"
| "invite_users w c rid alias (user # users) s =
     invite_users w c rid alias users
       (if check_user_id_ext w user then invite_to_room rid user (room_id c) alias s
        else reply w c (''Invalid user mxid: '' @ user) s)"

definition TEXT_COULD_NOT_RESOLVE :: string where
  "TEXT_COULD_NOT_RESOLVE = ''Could not resolve room ID. Please ensure room exists.''"

definition Command_invite :: "'x World \<Rightarrow> help_strings \<Rightarrow> Command \<Rightarrow> 'x State \<Rightarrow> 'x State" where
  "Command_invite w H c s =
     (case Command_ensure_coordinator w c s of (ok, s1) \<Rightarrow>
      if \<not> ok then s1
      else
        (case args c of
           [] \<Rightarrow> reply w c (HELP_INVITE H) s1
         | a0 # rest \<Rightarrow>
             if a0 = ''help'' then reply w c (HELP_INVITE H) s1
             else
               (case ensure_room_id_ext w a0 of
                  Inl AttributeError \<Rightarrow> reply w c TEXT_COULD_NOT_RESOLVE s1
                | Inl ProtocolError \<Rightarrow> reply w c TEXT_COULD_NOT_RESOLVE s1
                | Inl IndexError \<Rightarrow>
                    reply w c (''Cannot understand arguments.'' @ [CHR 0x0A, CHR 0x0A] @ HELP_INVITE H) s1
                | Inl e \<Rightarrow> s1\<lparr>raised := Some e\<rparr>
                | Inr rid \<Rightarrow>
                    if length (args c) = 1
                    then invite_to_room rid (sender c) (room_id c) a0 s1
                    else invite_users w c rid a0 rest s1)))"

subsection \<open>Power levels\<close>

definition power_response_text :: "power_response \<Rightarrow> string" where
  "power_response_text response =
     (case response of
        RoomPutStateError message \<Rightarrow> ''Sorry, command failed.'' @ [CHR 0x0A, CHR 0x0A] @ message
      | RoomGetStateEventError message \<Rightarrow> ''Sorry, command failed.'' @ [CHR 0x0A, CHR 0x0A] @ message
      | RoomPutStateResponse \<Rightarrow> ''Power level was successfully set as requested.''
      | StatusCode code \<Rightarrow>
          if code = 403
          then ''Failed to set power level - no permissions to do so or not in room.''
          else ''Failed to set power level - error code '' @ str_int code @ ''.''
      | UnexpectedResponse r \<Rightarrow> ''Unknown power level response, please consult the logs.'')"

definition TEXT_LEVEL_MUST_BE :: string where
  "TEXT_LEVEL_MUST_BE = ''Level must be '' @ [CHR 0x27] @ ''moderator'' @ [CHR 0x27] @ '' or ''
     @ [CHR 0x27] @ ''admin'' @ [CHR 0x27] @ ''.''"

definition TEXT_ONLY_BOT_ADMINS :: string where
  "TEXT_ONLY_BOT_ADMINS = ''Only bot admins can set admin level power, sorry.''"

definition Command_power :: "'x World \<Rightarrow> Command \<Rightarrow> 'x State \<Rightarrow> 'x State" where
  "Command_power w c s =
     (case Command_ensure_coordinator w c s of (ok, s1) \<Rightarrow>
      if \<not> ok then s1
      else
        (case args c of
           [] \<Rightarrow> reply w c HELP_POWER s1
         | a0 # rest \<Rightarrow>
             if a0 = ''help'' then reply w c HELP_POWER s1
             else
               (case rest of
                  [] \<Rightarrow> reply w c (''Cannot understand arguments.'' @ [CHR 0x0A, CHR 0x0A] @ HELP_POWER) s1
                | a1 # others \<Rightarrow>
                    (case (if startswith a1 ''#'' then room_resolve_alias_ext w a1 else Some a1) of
                       None \<Rightarrow> reply w c TEXT_COULD_NOT_RESOLVE s1
                     | Some rid \<Rightarrow>
                         (let level = (case others of [] \<Rightarrow> ''moderator'' | a2 # _ \<Rightarrow> a2) in
                          if level \<notin> set [''moderator'', ''admin''] then reply w c TEXT_LEVEL_MUST_BE s1
                          else
                            (case (if level = ''admin'' then Command_ensure_admin w c s1 else (True, s1)) of
                               (is_admin, s2) \<Rightarrow>
                                 if \<not> is_admin then reply w c TEXT_ONLY_BOT_ADMINS s2
                                 else
                                   (let power = (if level = ''admin'' then 100 else 50);
                                        response = set_user_power_ext w rid a0 power;
                                        s3 = s2\<lparr>effects := effects s2 @ [SetUserPower rid a0 power]\<rparr>
                                    in reply w c (power_response_text response) s3)))))))"

definition Command_show_help :: "'x World \<Rightarrow> help_strings \<Rightarrow> Command \<Rightarrow> 'x State \<Rightarrow> 'x State" where
  "Command_show_help w H c s = reply w c (HELP_HELP H) s"

definition Command_unknown_command :: "'x World \<Rightarrow> Command \<Rightarrow> 'x State \<Rightarrow> 'x State" where
  "Command_unknown_command w c s =
     reply w c (''Unknown command '' @ [CHR 0x27] @ command c @ [CHR 0x27]
                @ ''. Try the '' @ [CHR 0x27] @ ''help'' @ [CHR 0x27]
                @ '' command for more information.'') s"

subsection \<open>Rooms and spaces\<close>

definition list_rooms :: "Command \<Rightarrow> Storage \<Rightarrow> bool \<Rightarrow> string" where
  "list_rooms c st spaces =
     ''I currently maintain the following '' @ (if spaces then ''spaces'' else ''rooms'')
     @ '':'' @ [CHR 0x0A, CHR 0x0A]
     @ concat (map (\<lambda>room.
         ''* '' @ row_name room @ '' / #'' @ row_alias room @ '':'' @ server_name (config c)
         @ '' / '' @ row_room_id room @ [CHR 0x0A]) (get_rooms st spaces))"

definition no_admin_room_line :: "'x World \<Rightarrow> Command \<Rightarrow> bool \<Rightarrow> room_row \<Rightarrow> string" where
  "no_admin_room_line w c spaces room =
     (case get_room_power_levels_ext w (row_room_id room) of
        None \<Rightarrow> []
      | Some users \<Rightarrow>
          if users \<noteq> [] \<and> (case map_of users (user_id (config c)) of None \<Rightarrow> 0 | Some p \<Rightarrow> p) < 100
          then
            (let user_count = joined_members_ext w (row_room_id room);
                 admin_users = filter (\<lambda>(user, power). power = 100) users;
                 suffix = (if length admin_users \<noteq> 0
                           then ''. **The '' @ (if spaces then ''space'' else ''room'') @ '' has ''
                                @ str_nat (length admin_users) @ '' other admins.**''
                           else [])
             in ''* '' @ row_name room @ '' / #'' @ row_alias room @ '':'' @ server_name (config c)
                @ '' / '' @ row_room_id room @ '' / users: ''
                @ (case user_count of
                     None \<Rightarrow> ''unknown''
                   | Some members \<Rightarrow> if members \<noteq> [] then str_nat (length members) else ''unknown'')
                @ suffix @ [CHR 0x0A])
          else [])"

definition list_no_admin_rooms :: "'x World \<Rightarrow> Command \<Rightarrow> Storage \<Rightarrow> bool \<Rightarrow> string" where
  "list_no_admin_rooms w c st spaces =
     ''I lack admin power in the following '' @ (if spaces then ''spaces'' else ''rooms'')
     @ '' I maintain:'' @ [CHR 0x0A, CHR 0x0A]
     @ concat (map (no_admin_room_line w c spaces) (get_rooms st spaces))"

definition ensure_room_exists ::
  "'x World \<Rightarrow> string \<times> string \<times> string \<times> bool \<times> bool \<times> string \<Rightarrow> 'x State
     \<Rightarrow> (string \<times> string) \<times> 'x State" where
  "ensure_room_exists w room s =
     (case ensure_room_exists_ext w room (store s) of
        (res, st) \<Rightarrow> (res, s\<lparr>store := st, effects := effects s @ [EnsureRoomExists room]\<rparr>))"

definition Command_unlink_room ::
  "'x World \<Rightarrow> help_strings \<Rightarrow> Command \<Rightarrow> bool \<Rightarrow> 'x State \<Rightarrow> 'x State" where
  "Command_unlink_room w H c leave s =
     (case Command_ensure_coordinator w c s of (ok, s1) \<Rightarrow>
      if \<not> ok then s1
      else if length (args c) < 2 then reply w c (HELP_ROOMS_UNLINK H) s1
      else
        (case ensure_room_id_ext w (args c ! 1) of
           Inl KeyError \<Rightarrow> reply w c ''Error resolving room ID'' s1
         | Inl ProtocolError \<Rightarrow> reply w c ''Error resolving room ID'' s1
         | Inl e \<Rightarrow> s1\<lparr>raised := Some e\<rparr>
         | Inr rid \<Rightarrow>
             (case get_room (store s1) rid of
                None \<Rightarrow>
                  reply w c (''Cannot unlink room '' @ rid @ '' which doesn'' @ [CHR 0x27]
                             @ ''t seem tracked by Bubo'') s1
              | Some room \<Rightarrow>
                  (let s2 = s1\<lparr>store := unlink_room (store s1) rid\<rparr>;
                       s3 = (if leave then s2\<lparr>effects := effects s2 @ [RoomLeave rid]\<rparr> else s2)
                   in reply w c (''Room '' @ rid @ '' has been removed from Bubo database.''
                                 @ (if leave then '' Bubo has also left the room'' else [])) s3))))"

text \<open>The end of \<open>_rooms\<close>: \<open>if text: await send_text_to_room(...)\<close>.\<close>

definition send_if_text :: "'x World \<Rightarrow> Command \<Rightarrow> string \<Rightarrow> 'x State \<Rightarrow> 'x State" where
  "send_if_text w c text s = (if text \<noteq> [] then reply w c text s else s)"

definition Command_rooms ::
  "'x World \<Rightarrow> help_strings \<Rightarrow> bool \<Rightarrow> Command \<Rightarrow> 'x State \<Rightarrow> 'x State" where
  "Command_rooms w H space c s =
     (case Command_ensure_coordinator w c s of (ok, s1) \<Rightarrow>
      if \<not> ok then s1
      else
        (let type_text = (if space then ''Space'' else ''Room'') in
         case args c of
           [] \<Rightarrow> send_if_text w c (list_rooms c (store s1) False) s1
         | a0 # rest \<Rightarrow>
             if a0 = ''create'' then
               (let params = csv_reader (join '' '' rest) in
                if (if length params \<noteq> 5 then True
                    else if params ! 3 \<notin> set [''yes'', ''no''] then True
                    else if params ! 3 \<notin> set [''yes'', ''no''] then True
                    else params ! 0 = ''help'')
                then send_if_text w c
                       (''Wrong number or bad arguments. Usage:'' @ [CHR 0x0A, CHR 0x0A]
                        @ (if space then HELP_SPACES H else HELP_ROOMS H)) s1
                else
                  (case ensure_room_exists w
                          (params ! 0, params ! 1, params ! 2,
                           (if params ! 3 = ''yes'' then True else False),
                           (if params ! 4 = ''yes'' then True else False),
                           (if space then ''space'' else [])) s1 of
                     ((result, error), s2) \<Rightarrow>
                       (let room_text = type_text @ '' '' @ params ! 0 @ '' (#'' @ params ! 1
                                        @ '':'' @ server_name (config c) @ '') '' in
                        if result = ''created''
                        then send_if_text w c (room_text @ ''created successfully.'') s2
                        else if result = ''exists''
                        then send_if_text w c (''Sorry! '' @ room_text @ ''already exists.'') s2
                        else send_if_text w c (''Error creating '' @ type_text @ '': '' @ error) s2)))
             else if a0 = ''help'' then
               send_if_text w c (if space then HELP_SPACES H else HELP_ROOMS H) s1
             else if a0 = ''list'' then send_if_text w c (list_rooms c (store s1) space) s1
             else if a0 = ''list-no-admin'' then
               send_if_text w c (list_no_admin_rooms w c (store s1) space) s1
             else if a0 = ''recreate'' then
               Command_recreate_room w H c
                 (if length (args c) > 1 then Some (args c ! 1) else None) s1
             else if a0 = ''unlink'' then Command_unlink_room w H c False s1
             else if a0 = ''unlink-and-leave'' then Command_unlink_room w H c True s1
             else send_if_text w c ''Unknown subcommand!'' s1))"

subsection \<open>Users\<close>

text \<open>The functions of \<open>users.py\<close>, over the Keycloak client and the signup service.\<close>

definition get_user_by_attr ::
  "'x World \<Rightarrow> Config \<Rightarrow> 'x \<Rightarrow> string \<Rightarrow> string \<Rightarrow> string + kc_user option" where
  "get_user_by_attr w cfg b attr v =
     (if \<not> keycloak_enabled cfg then Inr None
      else
        (case keycloak_get_users w b (Some (attr, v)) of
           Inl ex \<Rightarrow> Inl ex
         | Inr users \<Rightarrow>
             if length users = 1 then Inr (Some (users ! 0))
             else if length users > 1
             then Inl (''More than one user found with the same '' @ attr @ '' = '' @ v)
             else Inr None))"

definition list_users :: "'x World \<Rightarrow> Config \<Rightarrow> 'x \<Rightarrow> string + kc_user list" where
  "list_users w cfg b = (if \<not> keycloak_enabled cfg then Inr [] else keycloak_get_users w b None)"

definition create_user :: "'x World \<Rightarrow> Config \<Rightarrow> string \<Rightarrow> string \<Rightarrow> 'x \<Rightarrow> string option \<times> 'x" where
  "create_user w cfg name email b =
     (if \<not> keycloak_enabled cfg then (None, b) else keycloak_create_user w b name email)"

definition send_password_reset :: "Config \<Rightarrow> string \<Rightarrow> 'x State \<Rightarrow> 'x State" where
  "send_password_reset cfg uid s =
     (if \<not> keycloak_enabled cfg then s else s\<lparr>effects := effects s @ [SendUpdateAccount uid]\<rparr>)"

text \<open>\<open>invite_user\<close> returns the text of the exception it raised, if any.\<close>

definition invite_user ::
  "'x World \<Rightarrow> Config \<Rightarrow> string \<Rightarrow> string \<Rightarrow> 'x State \<Rightarrow> string option \<times> 'x State" where
  "invite_user w cfg email creator s =
     (if \<not> keycloak_signup_enabled cfg then (None, s)
      else
        (let s1 = s\<lparr>effects := effects s @ [CreateSignupPage creator 1 (page_valid_days cfg)]\<rparr> in
         case signup_pages_post w creator 1 (page_valid_days cfg) of
           Inl ex \<Rightarrow> (Some ex, s1)
         | Inr signup_token \<Rightarrow>
             (let message = invite_link_email w (keycloak_signup_url cfg @ ''/'' @ signup_token)
              in (send_plain_email_ext w email message,
                  s1\<lparr>effects := effects s1 @ [SendPlainEmail email message]\<rparr>))))"

definition create_signup_link ::
  "'x World \<Rightarrow> Config \<Rightarrow> string \<Rightarrow> int \<Rightarrow> int \<Rightarrow> 'x State \<Rightarrow> (string + string) \<times> 'x State" where
  "create_signup_link w cfg creator max_signups days_valid s =
     (if \<not> keycloak_signup_enabled cfg then (Inl ''Keycloak-Signup not configured'', s)
      else
        (let s1 = s\<lparr>effects := effects s @ [CreateSignupPage creator max_signups (Some days_valid)]\<rparr> in
         case signup_pages_post w creator max_signups (Some days_valid) of
           Inl ex \<Rightarrow> (Inl ex, s1)
         | Inr signup_token \<Rightarrow> (Inr (keycloak_signup_url cfg @ ''/'' @ signup_token), s1)))"

text \<open>\<open>int(s)\<close> on a token without whitespace: a sign, then decimal digits that single
  underscores may separate. \<open>None\<close> is \<open>ValueError\<close>.\<close>

definition digit_val :: "char \<Rightarrow> nat option" where
  "digit_val ch = map_of (zip ''0123456789'' [0, 1, 2, 3, 4, 5, 6, 7, 8, 9]) ch"

fun parse_digits :: "nat \<Rightarrow> bool \<Rightarrow> string \<Rightarrow> nat option" where
  "parse_digits acc after_digit [] = (if after_digit then Some acc else None)"
| "parse_digits acc after_digit (ch # cs) =
     (if ch = CHR ''_'' then (if after_digit \<and> cs \<noteq> [] then parse_digits acc False cs else None)
      else
        (case digit_val ch of
           None \<Rightarrow> None
         | Some d \<Rightarrow> parse_digits (10 * acc + d) True cs))"

definition py_int :: "string \<Rightarrow> int option" where
  "py_int s =
     (case s of
        [] \<Rightarrow> None
      | ch # cs \<Rightarrow>
          if ch = CHR ''-'' then map_option (\<lambda>n. - int n) (parse_digits 0 False cs)
          else if ch = CHR ''+'' then map_option int (parse_digits 0 False cs)
          else map_option int (parse_digits 0 False s))"

text \<open>The username candidate of an email: the part before the first \<open>@\<close>, lower-cased,
  with every character outside \<open>[a-z0-9._\-]\<close> removed.\<close>

definition lower_char :: "char \<Rightarrow> char" where
  "lower_char ch =
     (case map_of (zip ''ABCDEFGHIJKLMNOPQRSTUVWXYZ'' ''abcdefghijklmnopqrstuvwxyz'') ch of
        None \<Rightarrow> ch
      | Some l \<Rightarrow> l)"

definition username_candidate_of :: "string \<Rightarrow> string" where
  "username_candidate_of email =
     filter (\<lambda>ch. ch \<in> set ''abcdefghijklmnopqrstuvwxyz0123456789._-'')
       (map lower_char (takeWhile (\<lambda>ch. ch \<noteq> CHR ''@'') email))"

text \<open>
  The lookup inside the loop: an exception counts as an existing user
  (\<open>except Exception: existing_user = True\<close>).
\<close>

definition existing_user :: "'x World \<Rightarrow> Config \<Rightarrow> 'x \<Rightarrow> string \<Rightarrow> bool" where
  "existing_user w cfg b candidate =
     (case get_user_by_attr w cfg b ''username'' candidate of
        Inl ex \<Rightarrow> True
      | Inr None \<Rightarrow> False
      | Inr (Some u) \<Rightarrow> True)"

text \<open>
  The loop \<open>while not username\<close>. It may run forever: \<open>None\<close> is not returning. A free
  candidate that is the empty string is assigned to \<open>username\<close> and leaves the loop
  condition true, with the candidate and the counter unchanged.
\<close>

partial_function (option) find_username ::
  "(string \<Rightarrow> bool) \<Rightarrow> string \<Rightarrow> string \<Rightarrow> nat \<Rightarrow> string option" where
  "find_username existing username_candidate candidate counter =
     (if existing candidate
      then find_username existing username_candidate
             (username_candidate @ str_nat (counter + 1)) (counter + 1)
      else if candidate = [] then find_username existing username_candidate candidate counter
      else Some candidate)"

definition users_create_email ::
  "'x World \<Rightarrow> Command \<Rightarrow> string \<Rightarrow> 'x State \<Rightarrow> (string \<times> 'x State) option" where
  "users_create_email w c email0 s =
     (case validate_email_ext w email0 of
        Inl ex \<Rightarrow> Some (''The email '' @ email0 @ '' looks invalid: '' @ ex, s)
      | Inr email \<Rightarrow>
          (case get_user_by_attr w (config c) (backend s) ''email'' email of
             Inl ex \<Rightarrow> Some (''Error looking up existing users by email '' @ email @ '': '' @ ex, s)
           | Inr (Some u) \<Rightarrow> Some (''Found an existing user by email '' @ email @ '' - ignoring'', s)
           | Inr None \<Rightarrow>
               (let username_candidate = username_candidate_of email in
                case find_username (existing_user w (config c) (backend s))
                       username_candidate username_candidate 0 of
                  None \<Rightarrow> None
                | Some name \<Rightarrow>
                    (case create_user w (config c) name email (backend s) of
                       (uid, b) \<Rightarrow>
                         (case uid of
                            None \<Rightarrow> Some (''Failed to create user for email '' @ email, s\<lparr>backend := b\<rparr>)
                          | Some u \<Rightarrow>
                              if u = []
                              then Some (''Failed to create user for email '' @ email, s\<lparr>backend := b\<rparr>)
                              else Some (''Successfully create '' @ email @ ''!'',
                                         send_password_reset (config c) u (s\<lparr>backend := b\<rparr>)))))))"

fun users_create_emails ::
  "'x World \<Rightarrow> Command \<Rightarrow> string list \<Rightarrow> string list \<Rightarrow> 'x State \<Rightarrow> (string list \<times> 'x State) option" where
  "users_create_emails w c [] texts s = Some (texts, s)"
| "users_create_emails w c (email # emails) texts s =
     (case users_create_email w c email s of
        None \<Rightarrow> None
      | Some (text, s1) \<Rightarrow> users_create_emails w c emails (texts @ [text]) s1)"

fun users_invite_emails ::
  "'x World \<Rightarrow> Command \<Rightarrow> string list \<Rightarrow> string list \<Rightarrow> 'x State \<Rightarrow> string list \<times> 'x State" where
  "users_invite_emails w c [] texts s = (texts, s)"
| "users_invite_emails w c (email0 # emails) texts s =
     (case validate_email_ext w email0 of
        Inl ex \<Rightarrow>
          users_invite_emails w c emails
            (texts @ [''The email '' @ email0 @ '' looks invalid: '' @ ex]) s
      | Inr email \<Rightarrow>
          (case invite_user w (config c) email (sender c) s of
             (Some ex, s1) \<Rightarrow>
               users_invite_emails w c emails
                 (texts @ [''Error inviting '' @ email @ '', please see logs.'']) s1
           | (None, s1) \<Rightarrow>
               users_invite_emails w c emails
                 (texts @ [''Successfully invited '' @ email @ ''!'']) s1))"

text \<open>The end of \<open>_users\<close>: \<open>if not text: text = help_strings.HELP_USERS\<close>, then the send.\<close>

definition users_send :: "'x World \<Rightarrow> help_strings \<Rightarrow> Command \<Rightarrow> string option \<Rightarrow> 'x State \<Rightarrow> 'x State" where
  "users_send w H c text s =
     reply w c (case text of None \<Rightarrow> HELP_USERS H | Some t \<Rightarrow> if t = [] then HELP_USERS H else t) s"

definition users_list :: "'x World \<Rightarrow> help_strings \<Rightarrow> Command \<Rightarrow> 'x State \<Rightarrow> 'x State" where
  "users_list w H c s =
     (case Command_ensure_admin w c s of (ok, s1) \<Rightarrow>
      if \<not> ok then s1
      else
        (case list_users w (config c) (backend s1) of
           Inl ex \<Rightarrow> s1\<lparr>raised := Some (OtherException ex)\<rparr>
         | Inr users \<Rightarrow>
             users_send w H c
               (Some (''The following usernames were found: '' @ join '', '' (map username users))) s1))"

text \<open>
  \<open>_users\<close>. The set of emails is iterated in an order Python does not fix; the model
  takes the arguments in order, without repetitions. \<open>None\<close> is not returning.
\<close>

definition Command_users ::
  "'x World \<Rightarrow> help_strings \<Rightarrow> Command \<Rightarrow> 'x State \<Rightarrow> 'x State option" where
  "Command_users w H c s =
     (if \<not> keycloak_enabled (config c) then Some (reply w c (HELP_USERS_KEYCLOAK_DISABLED H) s)
      else
        (case args c of
           [] \<Rightarrow> Some (users_list w H c s)
         | a0 # rest \<Rightarrow>
             if a0 = ''list'' then Some (users_list w H c s)
             else if a0 = ''help'' then Some (users_send w H c (Some (HELP_USERS H)) s)
             else if a0 = ''create'' then
               (case Command_ensure_admin w c s of (ok, s1) \<Rightarrow>
                if \<not> ok then Some s1
                else if (if length (args c) = 1 then True else args c ! 1 = ''help'')
                then Some (users_send w H c (Some (HELP_USERS_CREATE H)) s1)
                else
                  (case users_create_emails w c (remdups rest) [] s1 of
                     None \<Rightarrow> None
                   | Some (texts, s2) \<Rightarrow> Some (users_send w H c (Some (join [CHR 0x0A] texts)) s2)))
             else if a0 = ''invite'' then
               (case Command_ensure_coordinator w c s of (ok, s1) \<Rightarrow>
                if \<not> ok then Some s1
                else if \<not> keycloak_signup_enabled (config c)
                then Some (reply w c (HELP_USERS_KEYCLOAK_SIGNUP_DISABLED H) s1)
                else if (if length (args c) = 1 then True else args c ! 1 = ''help'')
                then Some (reply w c (HELP_USERS_INVITE H) s1)
                else
                  (case users_invite_emails w c (remdups rest) [] s1 of
                     (texts, s2) \<Rightarrow> Some (users_send w H c (Some (join [CHR 0x0A] texts)) s2)))
             else if a0 = ''signuplink'' then
               (case Command_ensure_coordinator w c s of (ok, s1) \<Rightarrow>
                if \<not> ok then Some s1
                else if \<not> keycloak_signup_enabled (config c)
                then Some (reply w c (HELP_USERS_KEYCLOAK_SIGNUP_DISABLED H) s1)
                else if (if length (args c) < 3 then True else args c ! 1 = ''help'')
                then Some (reply w c (HELP_USERS_SIGNUPLINK H) s1)
                else
                  (case (py_int (args c ! 1), py_int (args c ! 2)) of
                     (Some max_signups, Some days_valid) \<Rightarrow>
                       if max_signups < 1 \<or> days_valid < 1
                       then Some (reply w c (HELP_USERS_SIGNUPLINK H) s1)
                       else
                         (case create_signup_link w (config c) (sender c) max_signups days_valid s1 of
                            (Inl ex, s2) \<Rightarrow>
                              Some (users_send w H c
                                (Some ''Error creating signup link. Please contact an administrator.'') s2)
                          | (Inr signup_link, s2) \<Rightarrow>
                              Some (users_send w H c
                                (Some (''Signup link created for '' @ str_int max_signups
                                       @ '' signups with a validity of '' @ str_int days_valid
                                       @ '' days. The link is '' @ signup_link)) s2))
                   | _ \<Rightarrow> Some (reply w c (HELP_USERS_SIGNUPLINK H) s1)))
             else Some (users_send w H c None s)))"

subsection \<open>Dispatch\<close>

definition Command_process ::
  "'x World \<Rightarrow> help_strings \<Rightarrow> Command \<Rightarrow> 'x State \<Rightarrow> 'x State option" where
  "Command_process w H c s =
     (if startswith (command c) ''breakout'' then Some (Command_breakout w c s)
      else if startswith (command c) ''communities'' then Some (Command_communities w c s)
      else if startswith (command c) ''help'' then Some (Command_show_help w H c s)
      else if startswith (command c) ''invite'' then Some (Command_invite w H c s)
      else if startswith (command c) ''power'' then Some (Command_power w c s)
      else if startswith (command c) ''rooms'' then Some (Command_rooms w H False c s)
      else if startswith (command c) ''spaces'' then Some (Command_rooms w H True c s)
      else if startswith (command c) ''users'' then Command_users w H c s
      else Some (Command_unknown_command w c s))"

section \<open>Example inputs\<close>

text \<open>
  A small world for concrete runs: a homeserver \<open>example.org\<close> whose state is the list
  of its groups' local parts, next to the list of the identity provider's usernames.
  Creating a group or a user succeeds and adds it; a username query matches exactly.
\<close>

definition ex_config :: Config where
  "ex_config = \<lparr>admins = [''@alice:example.org'', ''@bob:example.org''],
                 coordinators = [''@carol:example.org''],
                 server_name = ''example.org'', command_prefix = ''!bubo '',
                 user_id = ''@bubo:example.org'', homeserver_url = ''https://example.org'',
                 user_token = ''secret'', keycloak_enabled = True,
                 keycloak_signup_enabled = True,
                 keycloak_signup_url = ''https://signup.example.org'',
                 page_valid_days = Some 7\<rparr>"

definition ex_help :: help_strings where
  "ex_help = \<lparr>HELP_HELP = ''help'', HELP_INVITE = ''help invite'', HELP_ROOMS = ''help rooms'',
               HELP_SPACES = ''help spaces'', HELP_ROOMS_RECREATE = ''help recreate'',
               HELP_ROOMS_RECREATE_CONFIRM = (\<lambda>p. ''confirm with '' @ p @ ''rooms recreate confirm''),
               HELP_ROOMS_UNLINK = ''help unlink'', HELP_USERS = ''help users'',
               HELP_USERS_CREATE = ''help users create'', HELP_USERS_INVITE = ''help users invite'',
               HELP_USERS_SIGNUPLINK = ''help users signuplink'',
               HELP_USERS_KEYCLOAK_DISABLED = ''keycloak disabled'',
               HELP_USERS_KEYCLOAK_SIGNUP_DISABLED = ''keycloak signup disabled''\<rparr>"

definition ex_profile_url :: "string \<Rightarrow> string" where
  "ex_profile_url alias =
     ''https://example.org/_matrix/client/r0/groups/+'' @ alias @ '':example.org/profile''"

definition ex_world :: "int \<Rightarrow> (string list \<times> string list) World" where
  "ex_world now =
     \<lparr>time_time = now,
      send_text_event_id = (\<lambda>rid text. Some ''$event''),
      create_breakout_room_id = (\<lambda>name creator. ''!breakout:example.org''),
      ensure_room_exists_ext = (\<lambda>room st. ((''created'', ''None''), st)),
      recreate_room_ext = (\<lambda>rid ev st. (Some ''!new:example.org'', st)),
      ensure_room_id_ext = (\<lambda>r. Inr r),
      room_resolve_alias_ext = (\<lambda>a. Some ''!resolved:example.org''),
      set_user_power_ext = (\<lambda>rid user power. RoomPutStateResponse),
      check_user_id_ext = (\<lambda>user. True),
      get_room_power_levels_ext = (\<lambda>rid. None),
      joined_members_ext = (\<lambda>rid. None),
      validate_email_ext = (\<lambda>email. Inr email),
      requests_get = (\<lambda>b url. if url \<in> set (map ex_profile_url (fst b)) then 200 else 404),
      requests_post_create_group =
        (\<lambda>b url req. ((200, ''b'' @ [CHR 0x27] @ ''{}'' @ [CHR 0x27]), (fst req # fst b, snd b))),
      keycloak_get_users =
        (\<lambda>b q. case q of
           None \<Rightarrow> Inr (map (\<lambda>n. \<lparr>username = n, kc_id = ''id-'' @ n\<rparr>) (snd b))
         | Some (attr, v) \<Rightarrow>
             if attr = ''username''
             then Inr (map (\<lambda>n. \<lparr>username = n, kc_id = ''id-'' @ n\<rparr>) (filter (\<lambda>n. n = v) (snd b)))
             else Inr []),
      keycloak_create_user = (\<lambda>b name email. (Some (''id-'' @ name), (fst b, name # snd b))),
      signup_pages_post = (\<lambda>creator n d. Inr ''token''),
      invite_link_email = (\<lambda>link. link),
      send_plain_email_ext = (\<lambda>email message. None),
      store_breakout_room_error = (\<lambda>event rid. None)\<rparr>"

definition ex_command :: "string \<Rightarrow> string \<Rightarrow> Command" where
  "ex_command who text =
     \<lparr>config = ex_config, command = text, room_id = ''!room:example.org'', sender = who,
      event_id = ''$command''\<rparr>"

definition ex_store :: "recreate_request list \<Rightarrow> Storage" where
  "ex_store requests = \<lparr>recreate_rooms = requests, breakout_rooms = [], communities = [], rooms = []\<rparr>"

definition ex_state :: "recreate_request list \<Rightarrow> (string list \<times> string list) State" where
  "ex_state requests = \<lparr>store = ex_store requests, effects = [], backend = ([], [''a'']), raised = None\<rparr>"

definition ex_request :: "bool \<Rightarrow> recreate_request" where
  "ex_request done =
     \<lparr>request_room_id = ''!room:example.org'', requester = ''@alice:example.org'',
      timestamp = 1000, applied = done\<rparr>"

section \<open>Notions the properties use\<close>

text \<open>The invariant of the recreate table: at most one request per room.\<close>

definition one_request_per_room :: "Storage \<Rightarrow> bool" where
  "one_request_per_room st = distinct (map request_room_id (recreate_rooms st))"

text \<open>The two denials of the permission gates, as the state they leave.\<close>

definition coordinator_denied :: "'x World \<Rightarrow> Command \<Rightarrow> 'x State \<Rightarrow> 'x State" where
  "coordinator_denied w c s = reply w c (TEXT_PERMISSION_DENIED @ '' Coordinator level access needed.'') s"

definition admin_denied :: "'x World \<Rightarrow> Command \<Rightarrow> 'x State \<Rightarrow> 'x State" where
  "admin_denied w c s = reply w c (TEXT_PERMISSION_DENIED @ '' Admin level access needed.'') s"

text \<open>
  The verbs of the command grammar, the first whitespace-separated token of a text, and
  the text of the unknown-command response.
\<close>

definition known_verbs :: "string list" where
  "known_verbs = [''help'', ''breakout'', ''rooms'', ''spaces'', ''communities'', ''power'',
                  ''invite'', ''users'']"

definition first_token :: "string \<Rightarrow> string option" where
  "first_token text = (case str_split text of [] \<Rightarrow> None | t # _ \<Rightarrow> Some t)"

definition unknown_command_text :: "string \<Rightarrow> string" where
  "unknown_command_text text =
     ''Unknown command '' @ [CHR 0x27] @ text @ [CHR 0x27] @ ''. Try the '' @ [CHR 0x27]
     @ ''help'' @ [CHR 0x27] @ '' command for more information.''"


text \<open>
  The number a digit string denotes, and the candidate the loop of \<open>users create\<close> holds
  when its counter is \<open>n\<close>.
\<close>

definition digits_value :: "string \<Rightarrow> nat" where
  "digits_value ds = foldl (\<lambda>acc ch. 10 * acc + (case digit_val ch of None \<Rightarrow> 0 | Some d \<Rightarrow> d)) 0 ds"

definition candidate_at :: "string \<Rightarrow> nat \<Rightarrow> string" where
  "candidate_at base n = (if n = 0 then base else base @ str_nat n)"







text \<open>
  The two addresses \<open>ensure_community_exists\<close> requests, an example world whose
  homeserver answers every profile request with 429 and refuses to create a group it
  already has, and an example community.
\<close>

definition group_profile_url :: "Config \<Rightarrow> string \<Rightarrow> string" where
  "group_profile_url cfg alias =
     homeserver_url cfg @ ''/_matrix/client/r0/groups/+'' @ alias @ '':'' @ server_name cfg @ ''/profile''"

definition create_group_url :: "Config \<Rightarrow> string" where
  "create_group_url cfg = homeserver_url cfg @ ''/_matrix/client/r0/create_group''"

definition ex_world_throttled :: "(string list \<times> string list) World" where
  "ex_world_throttled =
     (ex_world 0)
       \<lparr>requests_get := (\<lambda>b url. 429),
        requests_post_create_group :=
          (\<lambda>b url req.
             if fst req \<in> set (fst b)
             then ((400, ''b'' @ [CHR 0x27] @ ''Group already exists'' @ [CHR 0x27]), b)
             else ((200, ''b'' @ [CHR 0x27] @ ''{}'' @ [CHR 0x27]), (fst req # fst b, snd b)))\<rparr>"

definition ex_community :: "string \<times> string \<times> string \<times> string option" where
  "ex_community = (''My epic community'', ''epic'', ''The best community ever!'', None)"

text \<open>
  What the coordinator-gated handlers answer once the gate is passed: the text of
  \<open>communities create\<close> and of \<open>rooms create\<close> for each result, of an unlink, and of
  \<open>users signuplink\<close>.
\<close>

definition communities_create_text :: "Command \<Rightarrow> string \<Rightarrow> string \<Rightarrow> string \<times> string option \<Rightarrow> string" where
  "communities_create_text c name alias res =
     (if fst res = ''created''
      then communities_deprecated @ ''Community '' @ community_id_text (config c) name alias
           @ '' created successfully.''
      else if fst res = ''exists''
      then communities_deprecated @ ''Sorry! Community '' @ community_id_text (config c) name alias
           @ '' already exists.''
      else ''Error creating community: '' @ (case snd res of None \<Rightarrow> ''None'' | Some e \<Rightarrow> e))"

definition rooms_create_text :: "bool \<Rightarrow> Command \<Rightarrow> string \<Rightarrow> string \<Rightarrow> string \<times> string \<Rightarrow> string" where
  "rooms_create_text space c name alias res =
     (let type_text = (if space then ''Space'' else ''Room'');
          room_text = type_text @ '' '' @ name @ '' (#'' @ alias @ '':'' @ server_name (config c) @ '') ''
      in if fst res = ''created'' then room_text @ ''created successfully.''
         else if fst res = ''exists'' then ''Sorry! '' @ room_text @ ''already exists.''
         else ''Error creating '' @ type_text @ '': '' @ snd res)"

definition unlinked_text :: "string \<Rightarrow> bool \<Rightarrow> string" where
  "unlinked_text rid leave =
     ''Room '' @ rid @ '' has been removed from Bubo database.''
     @ (if leave then '' Bubo has also left the room'' else [])"

definition signup_link_text :: "int \<Rightarrow> int \<Rightarrow> string \<Rightarrow> string" where
  "signup_link_text max_signups days_valid signup_link =
     ''Signup link created for '' @ str_int max_signups @ '' signups with a validity of ''
     @ str_int days_valid @ '' days. The link is '' @ signup_link"

text \<open>The example state with one tracked room.\<close>

definition ex_state_tea :: "(string list \<times> string list) State" where
  "ex_state_tea =
     (ex_state [])\<lparr>store := (ex_store [])\<lparr>rooms :=
        [\<lparr>row_room_id = ''!tea:example.org'', row_name = ''Tea'', row_alias = ''tea'',
          row_is_space = False\<rparr>]\<rparr>\<rparr>"

section \<open>Properties\<close>

subsection \<open>The recreate confirmation\<close>

lemma store_reply: "store (reply w c text s) = store s"
  by (simp add: reply_def send_text_to_room_def)

text \<open>
  C1. A room has a pending request \<open>r\<close> (stored, not applied). A \<open>recreate confirm\<close> is
  gated by two checks in this order. First the sender must be the requester: a confirm
  from anyone else is rejected whatever the clock says (with the requester message when
  the sender holds the admin tier, with the permission message otherwise). Then the
  clock must read at most 60 seconds past the request's timestamp: a later confirm of
  the requester is rejected (with the window message when the requester holds the admin
  tier, with the permission message otherwise), and an earlier one, from a requester
  who holds the admin tier, calls \<open>recreate_room\<close>. A rejection is one message sent to
  the room; it leaves the store as it was, so the request is still the stored one.
\<close>

theorem recreate_confirm_gates:
  assumes "get_recreate_room (store s) (room_id c) = Some r" and "\<not> applied r"
  shows "(sender c \<noteq> requester r \<longrightarrow>
            Command_recreate_room w H c (Some ''confirm'') s =
              reply w c (if sender c \<in> set (get_users_for_access (config c) ''admins'')
                         then TEXT_CONFIRM_BY_REQUESTER
                         else TEXT_PERMISSION_DENIED @ '' Admin level access needed.'') s)
       \<and> (sender c = requester r \<and> time_time w - timestamp r > 60 \<longrightarrow>
            Command_recreate_room w H c (Some ''confirm'') s =
              reply w c (if sender c \<in> set (get_users_for_access (config c) ''admins'')
                         then TEXT_CONFIRM_WINDOW
                         else TEXT_PERMISSION_DENIED @ '' Admin level access needed.'') s)
       \<and> (sender c = requester r \<and> sender c \<in> set (get_users_for_access (config c) ''admins'')
            \<and> time_time w - timestamp r \<le> 60 \<longrightarrow>
            Command_recreate_room w H c (Some ''confirm'') s =
              (case recreate_room w c s of
                 (new_room_id, s2) \<Rightarrow>
                   if \<not> truthy new_room_id then reply w c TEXT_RECREATE_FAILED s2 else s2)
            \<and> RecreateRoom (room_id c) (event_id c)
                 \<in> set (effects (Command_recreate_room w H c (Some ''confirm'') s)))
       \<and> (\<forall>text. store (reply w c text s) = store s
              \<and> get_recreate_room (store (reply w c text s)) (room_id c) = Some r)"
  using assms
  by (auto simp: Command_recreate_room_def Command_ensure_admin_def store_reply recreate_room_def
      reply_def send_text_to_room_def split: prod.splits)

theorem recreate_confirm_gates_witness:
  "get_recreate_room (store (ex_state [ex_request False])) ''!room:example.org'' = Some (ex_request False)
   \<and> \<not> applied (ex_request False)
   \<and> effects (Command_recreate_room (ex_world 1059) ex_help
        (ex_command ''@alice:example.org'' ''rooms recreate confirm'') (Some ''confirm'')
        (ex_state [ex_request False])) = [RecreateRoom ''!room:example.org'' ''$command'']
   \<and> effects (Command_recreate_room (ex_world 1061) ex_help
        (ex_command ''@alice:example.org'' ''rooms recreate confirm'') (Some ''confirm'')
        (ex_state [ex_request False])) = [SendText ''!room:example.org'' TEXT_CONFIRM_WINDOW]
   \<and> effects (Command_recreate_room (ex_world 1030) ex_help
        (ex_command ''@bob:example.org'' ''rooms recreate confirm'') (Some ''confirm'')
        (ex_state [ex_request False])) = [SendText ''!room:example.org'' TEXT_CONFIRM_BY_REQUESTER]"
proof -
  let ?s = "ex_state [ex_request False]"
  let ?alice = "ex_command ''@alice:example.org'' ''rooms recreate confirm''"
  let ?bob = "ex_command ''@bob:example.org'' ''rooms recreate confirm''"
  have pa: "get_recreate_room (store ?s) (room_id ?alice) = Some (ex_request False)"
    and pb: "get_recreate_room (store ?s) (room_id ?bob) = Some (ex_request False)"
    and n: "\<not> applied (ex_request False)"
    by (simp_all add: get_recreate_room_def ex_state_def ex_store_def ex_request_def ex_command_def)
  have ids: "sender ?alice = requester (ex_request False)" "sender ?bob \<noteq> requester (ex_request False)"
    "sender ?alice \<in> set (get_users_for_access (config ?alice) ''admins'')"
    "sender ?bob \<in> set (get_users_for_access (config ?bob) ''admins'')"
    "timestamp (ex_request False) = 1000"
    by (simp_all add: ex_request_def ex_command_def ex_config_def get_users_for_access_def)
  have t59: "Command_recreate_room (ex_world 1059) ex_help ?alice (Some ''confirm'') ?s =
      (case recreate_room (ex_world 1059) ?alice ?s of
         (new_room_id, s2) \<Rightarrow>
           if \<not> truthy new_room_id then reply (ex_world 1059) ?alice TEXT_RECREATE_FAILED s2 else s2)"
    using recreate_confirm_gates [OF pa n, of "ex_world 1059" ex_help] ids
    by (simp add: ex_world_def)
  have t61: "Command_recreate_room (ex_world 1061) ex_help ?alice (Some ''confirm'') ?s =
      reply (ex_world 1061) ?alice TEXT_CONFIRM_WINDOW ?s"
    using recreate_confirm_gates [OF pa n, of "ex_world 1061" ex_help] ids
    by (simp add: ex_world_def)
  have t30: "Command_recreate_room (ex_world 1030) ex_help ?bob (Some ''confirm'') ?s =
      reply (ex_world 1030) ?bob TEXT_CONFIRM_BY_REQUESTER ?s"
    using recreate_confirm_gates [OF pb n, of "ex_world 1030" ex_help] ids
    by simp
  show ?thesis
    unfolding t59 t61 t30
    by (simp add: get_recreate_room_def ex_state_def ex_store_def ex_request_def ex_command_def
        ex_world_def recreate_room_def reply_def send_text_to_room_def)
qed

subsection \<open>Replacing and blocking requests\<close>

lemma find_over_append:
  "find P (xs @ ys) = (case find P xs of None \<Rightarrow> find P ys | Some x \<Rightarrow> Some x)"
  by (induction xs) auto

lemma get_recreate_room_after_replace:
  "get_recreate_room (store_recreate_room now (delete_recreate_room st rid) who rid) rid =
     Some \<lparr>request_room_id = rid, requester = who, timestamp = now, applied = False\<rparr>"
proof -
  have gone: "find (\<lambda>r. request_room_id r = rid) (filter (\<lambda>r. request_room_id r \<noteq> rid) xs) = None" for xs
    by (induction xs) auto
  show ?thesis
    by (simp add: get_recreate_room_def store_recreate_room_def delete_recreate_room_def
        find_over_append gone)
qed

lemma one_request_after_replace:
  assumes "one_request_per_room st"
  shows "one_request_per_room (store_recreate_room now (delete_recreate_room st rid) who rid)"
proof -
  have kept: "distinct (map request_room_id (filter (\<lambda>r. request_room_id r \<noteq> rid) xs))"
    if "distinct (map request_room_id xs)" for xs
    using that by (simp add: distinct_map_filter)
  show ?thesis
    using assms
    by (auto simp: one_request_per_room_def store_recreate_room_def delete_recreate_room_def kept)
qed

lemma count_after_replace:
  "length (filter (\<lambda>r. request_room_id r = rid)
     (recreate_rooms (store_recreate_room now (delete_recreate_room st rid) who rid))) = 1"
proof -
  have gone: "filter (\<lambda>r. request_room_id r = rid) (filter (\<lambda>r. request_room_id r \<noteq> rid) xs) = []" for xs
    by (induction xs) auto
  show ?thesis
    by (simp add: store_recreate_room_def delete_recreate_room_def gone)
qed

text \<open>
  C10. A room has an unapplied request \<open>r\<close>, stale or not (nothing is assumed of its
  timestamp), and a sender of the admin tier, the requester or anyone else, sends a bare
  \<open>recreate\<close>. The rows of the room are deleted and one fresh row is stored, with the
  sender as requester, the current time as timestamp and the applied flag false; the
  prompt to confirm is sent. Afterwards the room has exactly one row, and a table with
  at most one request per room stays so.
\<close>

theorem bare_recreate_replaces_request:
  assumes "get_recreate_room (store s) (room_id c) = Some r" and "\<not> applied r"
    and "sender c \<in> set (get_users_for_access (config c) ''admins'')"
  shows "Command_recreate_room w H c None s =
           reply w c (HELP_ROOMS_RECREATE_CONFIRM H (command_prefix (config c)))
             (s\<lparr>store := store_recreate_room (time_time w)
                            (delete_recreate_room (store s) (room_id c)) (sender c) (room_id c)\<rparr>)
       \<and> get_recreate_room (store (Command_recreate_room w H c None s)) (room_id c) =
           Some \<lparr>request_room_id = room_id c, requester = sender c,
                 timestamp = time_time w, applied = False\<rparr>
       \<and> length (filter (\<lambda>q. request_room_id q = room_id c)
            (recreate_rooms (store (Command_recreate_room w H c None s)))) = 1
       \<and> (one_request_per_room (store s) \<longrightarrow>
            one_request_per_room (store (Command_recreate_room w H c None s)))"
proof -
  have run: "Command_recreate_room w H c None s =
           reply w c (HELP_ROOMS_RECREATE_CONFIRM H (command_prefix (config c)))
             (s\<lparr>store := store_recreate_room (time_time w)
                            (delete_recreate_room (store s) (room_id c)) (sender c) (room_id c)\<rparr>)"
    using assms by (simp add: Command_recreate_room_def Command_ensure_admin_def)
  show ?thesis
    unfolding run
    by (simp add: store_reply get_recreate_room_after_replace count_after_replace
        one_request_after_replace)
qed

theorem bare_recreate_replaces_request_witness:
  "get_recreate_room (store (ex_state [ex_request False])) ''!room:example.org'' = Some (ex_request False)
   \<and> requester (ex_request False) \<noteq> ''@bob:example.org''
   \<and> one_request_per_room (store (ex_state [ex_request False]))
   \<and> recreate_rooms (store (Command_recreate_room (ex_world 1030) ex_help
        (ex_command ''@bob:example.org'' ''rooms recreate'') None (ex_state [ex_request False])))
      = [\<lparr>request_room_id = ''!room:example.org'', requester = ''@bob:example.org'',
           timestamp = 1030, applied = False\<rparr>]
   \<and> one_request_per_room (store (Command_recreate_room (ex_world 1030) ex_help
        (ex_command ''@bob:example.org'' ''rooms recreate'') None (ex_state [ex_request False])))"
proof -
  let ?s = "ex_state [ex_request False]"
  let ?bob = "ex_command ''@bob:example.org'' ''rooms recreate''"
  have p: "get_recreate_room (store ?s) (room_id ?bob) = Some (ex_request False)"
    and n: "\<not> applied (ex_request False)"
    and a: "sender ?bob \<in> set (get_users_for_access (config ?bob) ''admins'')"
    and i: "one_request_per_room (store ?s)"
    by (simp_all add: get_recreate_room_def ex_state_def ex_store_def ex_request_def ex_command_def
        ex_config_def get_users_for_access_def one_request_per_room_def)
  note t = bare_recreate_replaces_request [OF p n a, of "ex_world 1030" ex_help]
  have inv: "one_request_per_room (store (Command_recreate_room (ex_world 1030) ex_help ?bob None ?s))"
    using t i by blast
  have run: "Command_recreate_room (ex_world 1030) ex_help ?bob None ?s =
      reply (ex_world 1030) ?bob (HELP_ROOMS_RECREATE_CONFIRM ex_help (command_prefix (config ?bob)))
        (?s\<lparr>store := store_recreate_room (time_time (ex_world 1030))
                        (delete_recreate_room (store ?s) (room_id ?bob)) (sender ?bob) (room_id ?bob)\<rparr>)"
    using t by blast
  have rows: "recreate_rooms (store (Command_recreate_room (ex_world 1030) ex_help ?bob None ?s))
      = [\<lparr>request_room_id = ''!room:example.org'', requester = ''@bob:example.org'',
           timestamp = 1030, applied = False\<rparr>]"
    unfolding run
    by (simp add: store_reply store_recreate_room_def delete_recreate_room_def ex_state_def
        ex_store_def ex_request_def ex_command_def ex_world_def)
  show ?thesis
    using p i inv rows by (simp add: ex_command_def ex_request_def)
qed

text \<open>
  C2, as amended. Once the request of a room is applied, a bare \<open>recreate\<close> is rejected
  and changes nothing but the messages sent: a sender of the admin tier gets the
  "already recreated" message, any other sender the permission message. Nothing is said
  of \<open>recreate confirm\<close>.
\<close>

theorem applied_request_blocks_recreate:
  assumes "get_recreate_room (store s) (room_id c) = Some r" and "applied r"
  shows "Command_recreate_room w H c None s =
           reply w c (if sender c \<in> set (get_users_for_access (config c) ''admins'')
                      then TEXT_ALREADY_RECREATED
                      else TEXT_PERMISSION_DENIED @ '' Admin level access needed.'') s
       \<and> store (Command_recreate_room w H c None s) = store s
       \<and> backend (Command_recreate_room w H c None s) = backend s
       \<and> effects (Command_recreate_room w H c None s) =
           effects s @ [SendText (room_id c)
             (if sender c \<in> set (get_users_for_access (config c) ''admins'')
              then TEXT_ALREADY_RECREATED
              else TEXT_PERMISSION_DENIED @ '' Admin level access needed.'')]"
  using assms
  by (simp add: Command_recreate_room_def Command_ensure_admin_def reply_def send_text_to_room_def)

theorem applied_request_blocks_recreate_witness:
  "get_recreate_room (store (ex_state [ex_request True])) ''!room:example.org'' = Some (ex_request True)
   \<and> applied (ex_request True)
   \<and> Command_recreate_room (ex_world 5000) ex_help
        (ex_command ''@bob:example.org'' ''rooms recreate'') None (ex_state [ex_request True])
      = (ex_state [ex_request True])
          \<lparr>effects := [SendText ''!room:example.org'' TEXT_ALREADY_RECREATED]\<rparr>"
proof -
  let ?s = "ex_state [ex_request True]"
  let ?bob = "ex_command ''@bob:example.org'' ''rooms recreate''"
  have p: "get_recreate_room (store ?s) (room_id ?bob) = Some (ex_request True)"
    and n: "applied (ex_request True)"
    and a: "sender ?bob \<in> set (get_users_for_access (config ?bob) ''admins'')"
    by (simp_all add: get_recreate_room_def ex_state_def ex_store_def ex_request_def ex_command_def
        ex_config_def get_users_for_access_def)
  have "Command_recreate_room (ex_world 5000) ex_help ?bob None ?s =
      reply (ex_world 5000) ?bob TEXT_ALREADY_RECREATED ?s"
    using applied_request_blocks_recreate [OF p n, of "ex_world 5000" ex_help] a by simp
  then show ?thesis
    using p n by (simp add: reply_def send_text_to_room_def ex_command_def ex_state_def)
qed

text \<open>
  C2 as stated fails. With an applied request of Alice in the store: Carol, who is not
  an admin, gets the permission message for a bare \<open>recreate\<close>; Bob, an admin, gets the
  requester message for \<open>recreate confirm\<close>; and a \<open>recreate confirm\<close> of Alice herself,
  30 seconds after the request's timestamp, calls \<open>recreate_room\<close> again. None of the
  three is the "already recreated" message.
\<close>

theorem applied_request_counterexample:
  "get_recreate_room (store (ex_state [ex_request True])) ''!room:example.org'' = Some (ex_request True)
   \<and> applied (ex_request True)
   \<and> effects (Command_recreate_room (ex_world 1030) ex_help
        (ex_command ''@carol:example.org'' ''rooms recreate'') None (ex_state [ex_request True]))
      = [SendText ''!room:example.org'' (TEXT_PERMISSION_DENIED @ '' Admin level access needed.'')]
   \<and> effects (Command_recreate_room (ex_world 1030) ex_help
        (ex_command ''@bob:example.org'' ''rooms recreate confirm'') (Some ''confirm'')
        (ex_state [ex_request True]))
      = [SendText ''!room:example.org'' TEXT_CONFIRM_BY_REQUESTER]
   \<and> effects (Command_recreate_room (ex_world 1030) ex_help
        (ex_command ''@alice:example.org'' ''rooms recreate confirm'') (Some ''confirm'')
        (ex_state [ex_request True]))
      = [RecreateRoom ''!room:example.org'' ''$command'']
   \<and> TEXT_PERMISSION_DENIED @ '' Admin level access needed.'' \<noteq> TEXT_ALREADY_RECREATED
   \<and> TEXT_CONFIRM_BY_REQUESTER \<noteq> TEXT_ALREADY_RECREATED"
  by (simp add: Command_recreate_room_def Command_ensure_admin_def get_recreate_room_def
      ex_state_def ex_store_def ex_request_def ex_command_def ex_config_def ex_world_def
      get_users_for_access_def recreate_room_def reply_def send_text_to_room_def
      TEXT_PERMISSION_DENIED_def TEXT_ALREADY_RECREATED_def TEXT_CONFIRM_BY_REQUESTER_def)

subsection \<open>The permission gates\<close>

lemma gate_neither:
  assumes "sender c \<notin> set (admins (config c))" and "sender c \<notin> set (coordinators (config c))"
  shows "Command_ensure_coordinator w c s = (False, coordinator_denied w c s)"
  using assms
  by (simp add: Command_ensure_coordinator_def get_users_for_access_def coordinator_denied_def)

lemma gate_admin:
  assumes "sender c \<in> set (admins (config c))"
  shows "Command_ensure_coordinator w c s = (True, s)" and "Command_ensure_admin w c s = (True, s)"
  using assms
  by (simp_all add: Command_ensure_coordinator_def Command_ensure_admin_def get_users_for_access_def)

lemma gate_coordinator_only:
  assumes "sender c \<in> set (coordinators (config c))" and "sender c \<notin> set (admins (config c))"
  shows "Command_ensure_coordinator w c s = (True, s)"
    and "Command_ensure_admin w c s = (False, admin_denied w c s)"
  using assms
  by (simp_all add: Command_ensure_coordinator_def Command_ensure_admin_def
      get_users_for_access_def admin_denied_def)

lemma neither_handlers:
  assumes "sender c \<notin> set (admins (config c))" and "sender c \<notin> set (coordinators (config c))"
  shows "Command_communities w c s = coordinator_denied w c s"
    and "Command_invite w H c s = coordinator_denied w c s"
    and "Command_power w c s = coordinator_denied w c s"
    and "Command_rooms w H space c s = coordinator_denied w c s"
    and "Command_unlink_room w H c leave s = coordinator_denied w c s"
  by (simp_all add: Command_communities_def Command_invite_def Command_power_def Command_rooms_def
      Command_unlink_room_def gate_neither [OF assms])

lemma neither_users:
  assumes "sender c \<notin> set (admins (config c))" and "sender c \<notin> set (coordinators (config c))"
    and "keycloak_enabled (config c)"
    and "args c = ''invite'' # rest \<or> args c = ''signuplink'' # rest"
  shows "Command_users w H c s = Some (coordinator_denied w c s)"
  using assms(3,4)
  by (auto simp: Command_users_def gate_neither [OF assms(1,2)])

lemma coordinator_only_recreate:
  assumes "sender c \<in> set (coordinators (config c))" and "sender c \<notin> set (admins (config c))"
  shows "Command_recreate_room w H c subcommand s = admin_denied w c s"
  by (simp add: Command_recreate_room_def gate_coordinator_only [OF assms])

lemma coordinator_only_rooms_recreate:
  assumes "sender c \<in> set (coordinators (config c))" and "sender c \<notin> set (admins (config c))"
    and "args c = ''recreate'' # rest"
  shows "Command_rooms w H space c s = admin_denied w c s"
  using assms(3)
  by (simp add: Command_rooms_def gate_coordinator_only [OF assms(1,2)]
      coordinator_only_recreate [OF assms(1,2)])

lemma coordinator_only_power_admin:
  assumes "sender c \<in> set (coordinators (config c))" and "sender c \<notin> set (admins (config c))"
    and "args c = user # room # ''admin'' # rest" and "user \<noteq> ''help''"
    and "(if startswith room ''#'' then room_resolve_alias_ext w room else Some room) \<noteq> None"
  shows "Command_power w c s = reply w c TEXT_ONLY_BOT_ADMINS (admin_denied w c s)"
  using assms(3,4,5)
  by (auto simp: Command_power_def gate_coordinator_only [OF assms(1,2)])

lemma coordinator_only_users:
  assumes "sender c \<in> set (coordinators (config c))" and "sender c \<notin> set (admins (config c))"
    and "keycloak_enabled (config c)"
    and "args c = [] \<or> args c = ''list'' # rest \<or> args c = ''create'' # rest"
  shows "Command_users w H c s = Some (admin_denied w c s)"
  using assms(3,4)
  by (auto simp: Command_users_def users_list_def gate_coordinator_only [OF assms(1,2)])

lemma admin_communities_list:
  assumes "sender c \<in> set (admins (config c))" and "args c = []"
  shows "Command_communities w c s = reply w c (communities_list_text (config c) (store s)) s"
  using assms(2) by (simp add: Command_communities_def gate_admin [OF assms(1)])

lemma admin_communities_create:
  assumes "sender c \<in> set (admins (config c))" and "args c = ''create'' # rest"
    and "csv_reader (join '' '' rest) = [nm, al, ti]" and "nm \<noteq> ''help''"
  shows "Command_communities w c s =
      (case ensure_community_exists w (config c) (nm, al, ti, None) (backend s) of
         (res, b) \<Rightarrow>
           reply w c (communities_create_text c nm al res)
             (if fst res = ''created''
              then s\<lparr>backend := b, store := store_community (store s) nm al ti\<rparr>
              else s\<lparr>backend := b\<rparr>))"
proof -
  obtain r er b where e:
    "ensure_community_exists w (config c) (nm, al, ti, None) (backend s) = ((r, er), b)"
    by (metis surj_pair)
  show ?thesis
    using assms(2,3,4)
    by (simp add: Command_communities_def gate_admin [OF assms(1)] e Let_def
        communities_create_text_def)
qed

lemma admin_invite:
  assumes "sender c \<in> set (admins (config c))" and "args c = a0 # rest" and "a0 \<noteq> ''help''"
    and "ensure_room_id_ext w a0 = Inr rid"
  shows "Command_invite w H c s =
      (if rest = [] then invite_to_room rid (sender c) (room_id c) a0 s
       else invite_users w c rid a0 rest s)"
  using assms(2,3,4) by (simp add: Command_invite_def gate_admin [OF assms(1)])

lemma admin_power:
  assumes "sender c \<in> set (admins (config c))" and "args c = user # room # others"
    and "user \<noteq> ''help''"
    and "(if startswith room ''#'' then room_resolve_alias_ext w room else Some room) = Some rid"
    and "(case others of [] \<Rightarrow> ''moderator'' | a2 # _ \<Rightarrow> a2) = level"
    and "level = ''moderator'' \<or> level = ''admin''"
  shows "Command_power w c s =
      reply w c
        (power_response_text
           (set_user_power_ext w rid user (if level = ''admin'' then 100 else 50)))
        (s\<lparr>effects := effects s
             @ [SetUserPower rid user (if level = ''admin'' then 100 else 50)]\<rparr>)"
proof (cases "level = ''admin''")
  case True
  then show ?thesis
    using assms(2-5)
    by (simp add: Command_power_def gate_admin [OF assms(1)] Let_def)
next
  case False
  then have "level = ''moderator''" using assms(6) by simp
  then show ?thesis
    using assms(2-5)
    by (simp add: Command_power_def gate_admin [OF assms(1)] Let_def)
qed

lemma admin_rooms_subcommands:
  assumes "sender c \<in> set (admins (config c))"
  shows "args c = ''list'' # rest \<Longrightarrow>
      Command_rooms w H space c s = send_if_text w c (list_rooms c (store s) space) s"
    and "args c = ''list-no-admin'' # rest \<Longrightarrow>
      Command_rooms w H space c s = send_if_text w c (list_no_admin_rooms w c (store s) space) s"
    and "args c = ''unlink'' # rest \<Longrightarrow>
      Command_rooms w H space c s = Command_unlink_room w H c False s"
    and "args c = ''unlink-and-leave'' # rest \<Longrightarrow>
      Command_rooms w H space c s = Command_unlink_room w H c True s"
  by (simp_all add: Command_rooms_def gate_admin [OF assms(1)])

lemma admin_rooms_create:
  assumes "sender c \<in> set (admins (config c))" and "args c = ''create'' # rest"
    and "csv_reader (join '' '' rest) = [nm, al, par, flag1, flag2]"
    and "flag1 = ''yes'' \<or> flag1 = ''no''" and "flag2 = ''yes'' \<or> flag2 = ''no''"
    and "nm \<noteq> ''help''"
  shows "Command_rooms w H space c s =
      (case ensure_room_exists w
              (nm, al, par, flag1 = ''yes'', flag2 = ''yes'', (if space then ''space'' else [])) s of
         (res, s2) \<Rightarrow> send_if_text w c (rooms_create_text space c nm al res) s2)"
  using assms(2-)
  by (cases "flag1 = ''yes''"; cases "flag2 = ''yes''"; cases space;
      simp add: Command_rooms_def gate_admin [OF assms(1)] Let_def rooms_create_text_def
        split: prod.splits)

lemma admin_rooms_recreate:
  assumes "sender c \<in> set (admins (config c))" and "args c = [''recreate'']"
    and "get_recreate_room (store s) (room_id c) = None"
  shows "Command_rooms w H space c s =
      reply w c (HELP_ROOMS_RECREATE_CONFIRM H (command_prefix (config c)))
        (s\<lparr>store := store_recreate_room (time_time w) (store s) (sender c) (room_id c)\<rparr>)"
  using assms(2,3)
  by (simp add: Command_rooms_def Command_recreate_room_def gate_admin [OF assms(1)])

lemma admin_unlink:
  assumes "sender c \<in> set (admins (config c))" and "args c = a0 # target # rest"
    and "ensure_room_id_ext w target = Inr rid" and "get_room (store s) rid = Some row"
  shows "Command_unlink_room w H c leave s =
      reply w c (unlinked_text rid leave)
        (if leave
         then s\<lparr>store := unlink_room (store s) rid, effects := effects s @ [RoomLeave rid]\<rparr>
         else s\<lparr>store := unlink_room (store s) rid\<rparr>)"
  using assms(2,3,4)
  by (simp add: Command_unlink_room_def gate_admin [OF assms(1)] Let_def unlinked_text_def)

lemma admin_users_invite:
  assumes "sender c \<in> set (admins (config c))"
    and "keycloak_enabled (config c)" and "keycloak_signup_enabled (config c)"
    and "args c = ''invite'' # email # rest" and "email \<noteq> ''help''"
  shows "Command_users w H c s =
      (case users_invite_emails w c (remdups (email # rest)) [] s of
         (texts, s2) \<Rightarrow> Some (users_send w H c (Some (join [CHR 0x0A] texts)) s2))"
  using assms(2,3,4,5)
  by (simp add: Command_users_def gate_admin [OF assms(1)])

lemma admin_users_signuplink:
  assumes "sender c \<in> set (admins (config c))"
    and "keycloak_enabled (config c)" and "keycloak_signup_enabled (config c)"
    and "args c = ''signuplink'' # a1 # a2 # rest" and "a1 \<noteq> ''help''"
    and "py_int a1 = Some max_signups" and "py_int a2 = Some days_valid"
    and "1 \<le> max_signups" and "1 \<le> days_valid"
  shows "Command_users w H c s =
      (case create_signup_link w (config c) (sender c) max_signups days_valid s of
         (Inl ex, s2) \<Rightarrow>
           Some (users_send w H c
             (Some ''Error creating signup link. Please contact an administrator.'') s2)
       | (Inr signup_link, s2) \<Rightarrow>
           Some (users_send w H c (Some (signup_link_text max_signups days_valid signup_link)) s2))"
  using assms(2-)
  by (simp add: Command_users_def gate_admin [OF assms(1)] signup_link_text_def
      split: prod.splits sum.splits)

text \<open>
  C3. A sender in neither tier's membership list is denied by every handler that asks
  for the coordinator tier (communities, invite, power, rooms, spaces, unlink, and the
  users subcommands invite and signuplink once Keycloak is enabled): the handler sends
  the coordinator denial and does nothing else. A sender in the admin list is permitted
  by each of these handlers: both gates pass without a message and the handler does what
  was asked. Power sets the level, moderator or admin; communities lists and creates;
  invite invites the sender or the users named; rooms and spaces list, list the rooms
  without admin power, create, open a recreate request and unlink; unlink removes a
  tracked room and leaves it when asked; users invite and signuplink send their
  invitations and produce their link. The converse fails: a sender who is coordinator
  only passes the coordinator gate but is denied what asks for admin: recreating a room,
  granting admin power, listing and creating users.
\<close>

theorem permission_monotonicity:
  "(sender c \<notin> set (admins (config c)) \<and> sender c \<notin> set (coordinators (config c)) \<longrightarrow>
      Command_ensure_coordinator w c s = (False, coordinator_denied w c s)
      \<and> Command_communities w c s = coordinator_denied w c s
      \<and> Command_invite w H c s = coordinator_denied w c s
      \<and> Command_power w c s = coordinator_denied w c s
      \<and> Command_rooms w H space c s = coordinator_denied w c s
      \<and> Command_unlink_room w H c leave s = coordinator_denied w c s
      \<and> (keycloak_enabled (config c)
           \<and> (args c = ''invite'' # rest \<or> args c = ''signuplink'' # rest) \<longrightarrow>
           Command_users w H c s = Some (coordinator_denied w c s)))
   \<and> (sender c \<in> set (admins (config c)) \<longrightarrow>
        Command_ensure_coordinator w c s = (True, s) \<and> Command_ensure_admin w c s = (True, s)
        \<and> (args c = user # room # others \<and> user \<noteq> ''help''
             \<and> (if startswith room ''#'' then room_resolve_alias_ext w room else Some room) = Some rid
             \<and> (case others of [] \<Rightarrow> ''moderator'' | a2 # _ \<Rightarrow> a2) = level
             \<and> (level = ''moderator'' \<or> level = ''admin'') \<longrightarrow>
             Command_power w c s =
               reply w c
                 (power_response_text
                    (set_user_power_ext w rid user (if level = ''admin'' then 100 else 50)))
                 (s\<lparr>effects := effects s
                      @ [SetUserPower rid user (if level = ''admin'' then 100 else 50)]\<rparr>))
        \<and> (args c = arg # target # others \<and> ensure_room_id_ext w target = Inr rid
             \<and> get_room (store s) rid = Some row \<longrightarrow>
             Command_unlink_room w H c leave s =
               reply w c (unlinked_text rid leave)
                 (if leave
                  then s\<lparr>store := unlink_room (store s) rid,
                         effects := effects s @ [RoomLeave rid]\<rparr>
                  else s\<lparr>store := unlink_room (store s) rid\<rparr>))
        \<and> (args c = ''unlink'' # rest \<longrightarrow>
             Command_rooms w H space c s = Command_unlink_room w H c False s)
        \<and> (args c = ''unlink-and-leave'' # rest \<longrightarrow>
             Command_rooms w H space c s = Command_unlink_room w H c True s)
        \<and> (args c = ''list'' # rest \<longrightarrow>
             Command_rooms w H space c s = send_if_text w c (list_rooms c (store s) space) s)
        \<and> (args c = ''list-no-admin'' # rest \<longrightarrow>
             Command_rooms w H space c s
               = send_if_text w c (list_no_admin_rooms w c (store s) space) s)
        \<and> (args c = ''create'' # rest
             \<and> csv_reader (join '' '' rest) = [nm, al, par, flag1, flag2]
             \<and> (flag1 = ''yes'' \<or> flag1 = ''no'') \<and> (flag2 = ''yes'' \<or> flag2 = ''no'')
             \<and> nm \<noteq> ''help'' \<longrightarrow>
             Command_rooms w H space c s =
               (case ensure_room_exists w
                       (nm, al, par, flag1 = ''yes'', flag2 = ''yes'',
                        (if space then ''space'' else [])) s of
                  (res, s2) \<Rightarrow> send_if_text w c (rooms_create_text space c nm al res) s2))
        \<and> (args c = [''recreate''] \<and> get_recreate_room (store s) (room_id c) = None \<longrightarrow>
             Command_rooms w H space c s =
               reply w c (HELP_ROOMS_RECREATE_CONFIRM H (command_prefix (config c)))
                 (s\<lparr>store := store_recreate_room (time_time w) (store s) (sender c) (room_id c)\<rparr>))
        \<and> (args c = [] \<longrightarrow>
             Command_communities w c s = reply w c (communities_list_text (config c) (store s)) s)
        \<and> (args c = ''create'' # rest \<and> csv_reader (join '' '' rest) = [nm, al, ti]
             \<and> nm \<noteq> ''help'' \<longrightarrow>
             Command_communities w c s =
               (case ensure_community_exists w (config c) (nm, al, ti, None) (backend s) of
                  (res, b) \<Rightarrow>
                    reply w c (communities_create_text c nm al res)
                      (if fst res = ''created''
                       then s\<lparr>backend := b, store := store_community (store s) nm al ti\<rparr>
                       else s\<lparr>backend := b\<rparr>)))
        \<and> (args c = arg # rest \<and> arg \<noteq> ''help'' \<and> ensure_room_id_ext w arg = Inr rid \<longrightarrow>
             Command_invite w H c s =
               (if rest = [] then invite_to_room rid (sender c) (room_id c) arg s
                else invite_users w c rid arg rest s))
        \<and> (keycloak_enabled (config c) \<and> keycloak_signup_enabled (config c)
             \<and> args c = ''invite'' # email # rest \<and> email \<noteq> ''help'' \<longrightarrow>
             Command_users w H c s =
               (case users_invite_emails w c (remdups (email # rest)) [] s of
                  (texts, s2) \<Rightarrow> Some (users_send w H c (Some (join [CHR 0x0A] texts)) s2)))
        \<and> (keycloak_enabled (config c) \<and> keycloak_signup_enabled (config c)
             \<and> args c = ''signuplink'' # a1 # a2 # rest \<and> a1 \<noteq> ''help''
             \<and> py_int a1 = Some max_signups \<and> py_int a2 = Some days_valid
             \<and> 1 \<le> max_signups \<and> 1 \<le> days_valid \<longrightarrow>
             Command_users w H c s =
               (case create_signup_link w (config c) (sender c) max_signups days_valid s of
                  (Inl ex, s2) \<Rightarrow>
                    Some (users_send w H c
                      (Some ''Error creating signup link. Please contact an administrator.'') s2)
                | (Inr signup_link, s2) \<Rightarrow>
                    Some (users_send w H c
                      (Some (signup_link_text max_signups days_valid signup_link)) s2))))
   \<and> (sender c \<in> set (coordinators (config c)) \<and> sender c \<notin> set (admins (config c)) \<longrightarrow>
        Command_ensure_coordinator w c s = (True, s)
        \<and> Command_ensure_admin w c s = (False, admin_denied w c s)
        \<and> Command_recreate_room w H c subcommand s = admin_denied w c s
        \<and> (args c = ''recreate'' # rest \<longrightarrow> Command_rooms w H space c s = admin_denied w c s)
        \<and> (args c = user # room # ''admin'' # rest \<and> user \<noteq> ''help''
             \<and> (if startswith room ''#'' then room_resolve_alias_ext w room else Some room) \<noteq> None \<longrightarrow>
             Command_power w c s = reply w c TEXT_ONLY_BOT_ADMINS (admin_denied w c s))
        \<and> (keycloak_enabled (config c)
             \<and> (args c = [] \<or> args c = ''list'' # rest \<or> args c = ''create'' # rest) \<longrightarrow>
             Command_users w H c s = Some (admin_denied w c s)))"
proof (intro conjI impI)
  assume a: "sender c \<in> set (admins (config c))"
  show "Command_ensure_coordinator w c s = (True, s)" and "Command_ensure_admin w c s = (True, s)"
    by (rule gate_admin [OF a])+
  {
    assume "args c = user # room # others \<and> user \<noteq> ''help''
      \<and> (if startswith room ''#'' then room_resolve_alias_ext w room else Some room) = Some rid
      \<and> (case others of [] \<Rightarrow> ''moderator'' | a2 # _ \<Rightarrow> a2) = level
      \<and> (level = ''moderator'' \<or> level = ''admin'')"
    then show "Command_power w c s =
        reply w c
          (power_response_text
             (set_user_power_ext w rid user (if level = ''admin'' then 100 else 50)))
          (s\<lparr>effects := effects s
               @ [SetUserPower rid user (if level = ''admin'' then 100 else 50)]\<rparr>)"
      by (elim conjE) (rule admin_power [OF a], assumption+)
  }
  {
    assume "args c = arg # target # others \<and> ensure_room_id_ext w target = Inr rid
      \<and> get_room (store s) rid = Some row"
    then show "Command_unlink_room w H c leave s =
        reply w c (unlinked_text rid leave)
          (if leave
           then s\<lparr>store := unlink_room (store s) rid, effects := effects s @ [RoomLeave rid]\<rparr>
           else s\<lparr>store := unlink_room (store s) rid\<rparr>)"
      by (elim conjE) (rule admin_unlink [OF a], assumption+)
  }
  {
    assume "args c = ''unlink'' # rest"
    then show "Command_rooms w H space c s = Command_unlink_room w H c False s"
      by (rule admin_rooms_subcommands(3) [OF a])
  }
  {
    assume "args c = ''unlink-and-leave'' # rest"
    then show "Command_rooms w H space c s = Command_unlink_room w H c True s"
      by (rule admin_rooms_subcommands(4) [OF a])
  }
  {
    assume "args c = ''list'' # rest"
    then show "Command_rooms w H space c s = send_if_text w c (list_rooms c (store s) space) s"
      by (rule admin_rooms_subcommands(1) [OF a])
  }
  {
    assume "args c = ''list-no-admin'' # rest"
    then show "Command_rooms w H space c s
        = send_if_text w c (list_no_admin_rooms w c (store s) space) s"
      by (rule admin_rooms_subcommands(2) [OF a])
  }
  {
    assume "args c = ''create'' # rest
      \<and> csv_reader (join '' '' rest) = [nm, al, par, flag1, flag2]
      \<and> (flag1 = ''yes'' \<or> flag1 = ''no'') \<and> (flag2 = ''yes'' \<or> flag2 = ''no'')
      \<and> nm \<noteq> ''help''"
    then show "Command_rooms w H space c s =
        (case ensure_room_exists w
                (nm, al, par, flag1 = ''yes'', flag2 = ''yes'',
                 (if space then ''space'' else [])) s of
           (res, s2) \<Rightarrow> send_if_text w c (rooms_create_text space c nm al res) s2)"
      by (elim conjE) (rule admin_rooms_create [OF a], assumption+)
  }
  {
    assume "args c = [''recreate''] \<and> get_recreate_room (store s) (room_id c) = None"
    then show "Command_rooms w H space c s =
        reply w c (HELP_ROOMS_RECREATE_CONFIRM H (command_prefix (config c)))
          (s\<lparr>store := store_recreate_room (time_time w) (store s) (sender c) (room_id c)\<rparr>)"
      by (elim conjE) (rule admin_rooms_recreate [OF a], assumption+)
  }
  {
    assume "args c = []"
    then show "Command_communities w c s
        = reply w c (communities_list_text (config c) (store s)) s"
      by (rule admin_communities_list [OF a])
  }
  {
    assume "args c = ''create'' # rest \<and> csv_reader (join '' '' rest) = [nm, al, ti]
      \<and> nm \<noteq> ''help''"
    then show "Command_communities w c s =
        (case ensure_community_exists w (config c) (nm, al, ti, None) (backend s) of
           (res, b) \<Rightarrow>
             reply w c (communities_create_text c nm al res)
               (if fst res = ''created''
                then s\<lparr>backend := b, store := store_community (store s) nm al ti\<rparr>
                else s\<lparr>backend := b\<rparr>))"
      by (elim conjE) (rule admin_communities_create [OF a], assumption+)
  }
  {
    assume "args c = arg # rest \<and> arg \<noteq> ''help'' \<and> ensure_room_id_ext w arg = Inr rid"
    then show "Command_invite w H c s =
        (if rest = [] then invite_to_room rid (sender c) (room_id c) arg s
         else invite_users w c rid arg rest s)"
      by (elim conjE) (rule admin_invite [OF a], assumption+)
  }
  {
    assume "keycloak_enabled (config c) \<and> keycloak_signup_enabled (config c)
      \<and> args c = ''invite'' # email # rest \<and> email \<noteq> ''help''"
    then show "Command_users w H c s =
        (case users_invite_emails w c (remdups (email # rest)) [] s of
           (texts, s2) \<Rightarrow> Some (users_send w H c (Some (join [CHR 0x0A] texts)) s2))"
      by (elim conjE) (rule admin_users_invite [OF a], assumption+)
  }
  {
    assume "keycloak_enabled (config c) \<and> keycloak_signup_enabled (config c)
      \<and> args c = ''signuplink'' # a1 # a2 # rest \<and> a1 \<noteq> ''help''
      \<and> py_int a1 = Some max_signups \<and> py_int a2 = Some days_valid
      \<and> 1 \<le> max_signups \<and> 1 \<le> days_valid"
    then show "Command_users w H c s =
        (case create_signup_link w (config c) (sender c) max_signups days_valid s of
           (Inl ex, s2) \<Rightarrow>
             Some (users_send w H c
               (Some ''Error creating signup link. Please contact an administrator.'') s2)
         | (Inr signup_link, s2) \<Rightarrow>
             Some (users_send w H c
               (Some (signup_link_text max_signups days_valid signup_link)) s2))"
      by (elim conjE) (rule admin_users_signuplink [OF a], assumption+)
  }
next
  assume n: "sender c \<notin> set (admins (config c)) \<and> sender c \<notin> set (coordinators (config c))"
  then have n1: "sender c \<notin> set (admins (config c))" and n2: "sender c \<notin> set (coordinators (config c))"
    by simp_all
  show "Command_ensure_coordinator w c s = (False, coordinator_denied w c s)"
    by (rule gate_neither [OF n1 n2])
  show "Command_communities w c s = coordinator_denied w c s"
    and "Command_invite w H c s = coordinator_denied w c s"
    and "Command_power w c s = coordinator_denied w c s"
    and "Command_rooms w H space c s = coordinator_denied w c s"
    and "Command_unlink_room w H c leave s = coordinator_denied w c s"
    by (rule neither_handlers [OF n1 n2])+
  assume "keycloak_enabled (config c) \<and> (args c = ''invite'' # rest \<or> args c = ''signuplink'' # rest)"
  then show "Command_users w H c s = Some (coordinator_denied w c s)"
    using neither_users [OF n1 n2] by blast
next
  assume k: "sender c \<in> set (coordinators (config c)) \<and> sender c \<notin> set (admins (config c))"
  then have k1: "sender c \<in> set (coordinators (config c))" and k2: "sender c \<notin> set (admins (config c))"
    by simp_all
  show "Command_ensure_coordinator w c s = (True, s)"
    and "Command_ensure_admin w c s = (False, admin_denied w c s)"
    by (rule gate_coordinator_only [OF k1 k2])+
  show "Command_recreate_room w H c subcommand s = admin_denied w c s"
    by (rule coordinator_only_recreate [OF k1 k2])
  {
    assume "args c = ''recreate'' # rest"
    then show "Command_rooms w H space c s = admin_denied w c s"
      by (rule coordinator_only_rooms_recreate [OF k1 k2])
  }
  {
    assume "args c = user # room # ''admin'' # rest \<and> user \<noteq> ''help''
      \<and> (if startswith room ''#'' then room_resolve_alias_ext w room else Some room) \<noteq> None"
    then show "Command_power w c s = reply w c TEXT_ONLY_BOT_ADMINS (admin_denied w c s)"
      using coordinator_only_power_admin [OF k1 k2] by blast
  }
  {
    assume "keycloak_enabled (config c)
      \<and> (args c = [] \<or> args c = ''list'' # rest \<or> args c = ''create'' # rest)"
    then show "Command_users w H c s = Some (admin_denied w c s)"
      using coordinator_only_users [OF k1 k2] by blast
  }
qed

lemma ex_args:
  "args (ex_command who ''power @dave:example.org !room:example.org'')
     = [''@dave:example.org'', ''!room:example.org'']"
  "args (ex_command who ''power @dave:example.org !room:example.org admin'')
     = [''@dave:example.org'', ''!room:example.org'', ''admin'']"
  "args (ex_command who ''rooms unlink !tea:example.org'') = [''unlink'', ''!tea:example.org'']"
  by (simp_all add: args_def ex_command_def str_split_def isspace_def)

lemma ex_tea_tracked:
  "get_room (store ex_state_tea) ''!tea:example.org''
     = Some \<lparr>row_room_id = ''!tea:example.org'', row_name = ''Tea'', row_alias = ''tea'',
             row_is_space = False\<rparr>"
  by (simp add: get_room_def ex_state_tea_def ex_state_def ex_store_def)

theorem permission_monotonicity_witness:
  "effects (Command_power (ex_world 0)
      (ex_command ''@dave:example.org'' ''power @dave:example.org !room:example.org'') (ex_state []))
     = [SendText ''!room:example.org'' (TEXT_PERMISSION_DENIED @ '' Coordinator level access needed.'')]
   \<and> effects (Command_power (ex_world 0)
      (ex_command ''@alice:example.org'' ''power @dave:example.org !room:example.org'') (ex_state []))
     = [SetUserPower ''!room:example.org'' ''@dave:example.org'' 50,
        SendText ''!room:example.org'' ''Power level was successfully set as requested.'']
   \<and> effects (Command_power (ex_world 0)
      (ex_command ''@alice:example.org'' ''power @dave:example.org !room:example.org admin'') (ex_state []))
     = [SetUserPower ''!room:example.org'' ''@dave:example.org'' 100,
        SendText ''!room:example.org'' ''Power level was successfully set as requested.'']
   \<and> effects (Command_rooms (ex_world 0) ex_help False
      (ex_command ''@alice:example.org'' ''rooms unlink !tea:example.org'') ex_state_tea)
     = [SendText ''!room:example.org'' ''Room !tea:example.org has been removed from Bubo database.'']
   \<and> rooms (store (Command_rooms (ex_world 0) ex_help False
      (ex_command ''@alice:example.org'' ''rooms unlink !tea:example.org'') ex_state_tea)) = []
   \<and> effects (Command_power (ex_world 0)
      (ex_command ''@carol:example.org'' ''power @dave:example.org !room:example.org admin'') (ex_state []))
     = [SendText ''!room:example.org'' (TEXT_PERMISSION_DENIED @ '' Admin level access needed.''),
        SendText ''!room:example.org'' TEXT_ONLY_BOT_ADMINS]"
proof -
  let ?w = "ex_world 0 :: (string list \<times> string list) World"
  let ?s = "ex_state []"
  let ?dave = "ex_command ''@dave:example.org'' ''power @dave:example.org !room:example.org''"
  let ?alice = "ex_command ''@alice:example.org'' ''power @dave:example.org !room:example.org''"
  let ?alice_admin = "ex_command ''@alice:example.org'' ''power @dave:example.org !room:example.org admin''"
  let ?alice_unlink = "ex_command ''@alice:example.org'' ''rooms unlink !tea:example.org''"
  let ?carol = "ex_command ''@carol:example.org'' ''power @dave:example.org !room:example.org admin''"
  have dave: "sender ?dave \<notin> set (admins (config ?dave))" "sender ?dave \<notin> set (coordinators (config ?dave))"
    and alice: "sender ?alice \<in> set (admins (config ?alice))"
      "sender ?alice_admin \<in> set (admins (config ?alice_admin))"
      "sender ?alice_unlink \<in> set (admins (config ?alice_unlink))"
    and carol: "sender ?carol \<in> set (coordinators (config ?carol))" "sender ?carol \<notin> set (admins (config ?carol))"
    by (simp_all add: ex_command_def ex_config_def)
  have resolve: "ensure_room_id_ext ?w ''!tea:example.org'' = Inr ''!tea:example.org''"
    by (simp add: ex_world_def)
  have d: "Command_power ?w ?dave ?s = coordinator_denied ?w ?dave ?s"
    by (rule permission_monotonicity [where c = ?dave and w = ?w and s = ?s,
          THEN conjunct1, THEN mp, THEN conjunct2, THEN conjunct2, THEN conjunct2, THEN conjunct1])
      (simp add: dave)
  have a: "Command_power ?w ?alice ?s =
      reply ?w ?alice
        (power_response_text (set_user_power_ext ?w ''!room:example.org'' ''@dave:example.org'' 50))
        (?s\<lparr>effects := effects ?s @ [SetUserPower ''!room:example.org'' ''@dave:example.org'' 50]\<rparr>)"
    using permission_monotonicity [where c = ?alice and w = ?w and s = ?s
        and user = "''@dave:example.org''" and room = "''!room:example.org''" and others = "[]"
        and rid = "''!room:example.org''" and level = "''moderator''"]
      alice(1) ex_args(1) [of "''@alice:example.org''"]
    by (simp add: startswith_def)
  have aa: "Command_power ?w ?alice_admin ?s =
      reply ?w ?alice_admin
        (power_response_text (set_user_power_ext ?w ''!room:example.org'' ''@dave:example.org'' 100))
        (?s\<lparr>effects := effects ?s @ [SetUserPower ''!room:example.org'' ''@dave:example.org'' 100]\<rparr>)"
    using permission_monotonicity [where c = ?alice_admin and w = ?w and s = ?s
        and user = "''@dave:example.org''" and room = "''!room:example.org''"
        and others = "[''admin'']" and rid = "''!room:example.org''" and level = "''admin''"]
      alice(2) ex_args(2) [of "''@alice:example.org''"]
    by (simp add: startswith_def)
  have u: "Command_rooms ?w ex_help False ?alice_unlink ex_state_tea =
      reply ?w ?alice_unlink (unlinked_text ''!tea:example.org'' False)
        (ex_state_tea\<lparr>store := unlink_room (store ex_state_tea) ''!tea:example.org''\<rparr>)"
    using permission_monotonicity [where c = ?alice_unlink and w = ?w and s = ex_state_tea
        and H = ex_help and space = False and leave = False
        and arg = "''unlink''" and target = "''!tea:example.org''" and others = "[]"
        and rest = "[''!tea:example.org'']" and rid = "''!tea:example.org''"]
      alice(3) ex_args(3) [of "''@alice:example.org''"] resolve ex_tea_tracked
    by simp
  have c: "Command_power ?w ?carol ?s = reply ?w ?carol TEXT_ONLY_BOT_ADMINS (admin_denied ?w ?carol ?s)"
    using permission_monotonicity [where c = ?carol and w = ?w and s = ?s
        and user = "''@dave:example.org''" and room = "''!room:example.org''" and rest = "[]"]
      carol ex_args(2) [of "''@carol:example.org''"]
    by (simp add: startswith_def)
  have a': "effects (Command_power ?w ?alice ?s)
     = [SetUserPower ''!room:example.org'' ''@dave:example.org'' 50,
        SendText ''!room:example.org'' ''Power level was successfully set as requested.'']"
    unfolding a
    by (simp add: power_response_text_def reply_def send_text_to_room_def,
        simp add: ex_world_def ex_state_def ex_command_def)
  have aa': "effects (Command_power ?w ?alice_admin ?s)
     = [SetUserPower ''!room:example.org'' ''@dave:example.org'' 100,
        SendText ''!room:example.org'' ''Power level was successfully set as requested.'']"
    unfolding aa
    by (simp add: power_response_text_def reply_def send_text_to_room_def,
        simp add: ex_world_def ex_state_def ex_command_def)
  have u': "effects (Command_rooms ?w ex_help False ?alice_unlink ex_state_tea)
     = [SendText ''!room:example.org'' ''Room !tea:example.org has been removed from Bubo database.'']"
    "rooms (store (Command_rooms ?w ex_help False ?alice_unlink ex_state_tea)) = []"
    unfolding u
    by (simp_all add: unlinked_text_def unlink_room_def reply_def send_text_to_room_def
        ex_state_tea_def ex_state_def ex_store_def ex_command_def)
  have dc: "effects (coordinator_denied ?w ?dave ?s)
     = [SendText ''!room:example.org'' (TEXT_PERMISSION_DENIED @ '' Coordinator level access needed.'')]"
    "effects (reply ?w ?carol TEXT_ONLY_BOT_ADMINS (admin_denied ?w ?carol ?s))
     = [SendText ''!room:example.org'' (TEXT_PERMISSION_DENIED @ '' Admin level access needed.''),
        SendText ''!room:example.org'' TEXT_ONLY_BOT_ADMINS]"
    by (simp_all add: coordinator_denied_def admin_denied_def reply_def send_text_to_room_def
        ex_state_def ex_command_def)
  show ?thesis
    unfolding d c
    using a' aa' u' dc by simp
qed

subsection \<open>Routing\<close>

lemma startswith_exclusive:
  assumes "startswith x p" and "startswith x q"
  shows "prefix p q \<or> prefix q p"
  using assms prefix_same_cases [of p x q] by (auto simp: startswith_def)

lemma unknown_command_run:
  "Command_unknown_command w c s
     = s\<lparr>effects := effects s @ [SendText (room_id c) (unknown_command_text (command c))]\<rparr>"
  by (simp add: Command_unknown_command_def unknown_command_text_def reply_def send_text_to_room_def)

text \<open>
  C4, as amended. Routing compares the raw command text, not its first token: a command
  goes to the handler of the verb it starts with (no verb is a prefix of another, so
  the order of the tests does not matter), and a text that starts with no known verb
  gets exactly the unknown-command response: one message, nothing else changed.
\<close>

theorem prefix_routing:
  "(startswith (command c) ''breakout'' \<longrightarrow> Command_process w H c s = Some (Command_breakout w c s))
   \<and> (startswith (command c) ''communities'' \<longrightarrow> Command_process w H c s = Some (Command_communities w c s))
   \<and> (startswith (command c) ''help'' \<longrightarrow> Command_process w H c s = Some (Command_show_help w H c s))
   \<and> (startswith (command c) ''invite'' \<longrightarrow> Command_process w H c s = Some (Command_invite w H c s))
   \<and> (startswith (command c) ''power'' \<longrightarrow> Command_process w H c s = Some (Command_power w c s))
   \<and> (startswith (command c) ''rooms'' \<longrightarrow> Command_process w H c s = Some (Command_rooms w H False c s))
   \<and> (startswith (command c) ''spaces'' \<longrightarrow> Command_process w H c s = Some (Command_rooms w H True c s))
   \<and> (startswith (command c) ''users'' \<longrightarrow> Command_process w H c s = Command_users w H c s)
   \<and> ((\<forall>v \<in> set known_verbs. \<not> startswith (command c) v) \<longrightarrow>
        Command_process w H c s
          = Some (s\<lparr>effects := effects s @ [SendText (room_id c) (unknown_command_text (command c))]\<rparr>))"
proof (intro conjI impI)
  assume "\<forall>v \<in> set known_verbs. \<not> startswith (command c) v"
  then show "Command_process w H c s
      = Some (s\<lparr>effects := effects s @ [SendText (room_id c) (unknown_command_text (command c))]\<rparr>)"
    by (simp add: known_verbs_def Command_process_def unknown_command_run)
next
  assume "startswith (command c) ''breakout''"
  then show "Command_process w H c s = Some (Command_breakout w c s)"
    by (simp add: Command_process_def)
next
  assume a: "startswith (command c) ''communities''"
  show "Command_process w H c s = Some (Command_communities w c s)"
    using a startswith_exclusive [OF a, of "''breakout''"]
    by (auto simp: Command_process_def)
next
  assume a: "startswith (command c) ''help''"
  show "Command_process w H c s = Some (Command_show_help w H c s)"
    using a startswith_exclusive [OF a, of "''breakout''"] startswith_exclusive [OF a, of "''communities''"]
    by (auto simp: Command_process_def)
next
  assume a: "startswith (command c) ''invite''"
  show "Command_process w H c s = Some (Command_invite w H c s)"
    using a startswith_exclusive [OF a, of "''breakout''"] startswith_exclusive [OF a, of "''communities''"]
      startswith_exclusive [OF a, of "''help''"]
    by (auto simp: Command_process_def)
next
  assume a: "startswith (command c) ''power''"
  show "Command_process w H c s = Some (Command_power w c s)"
    using a startswith_exclusive [OF a, of "''breakout''"] startswith_exclusive [OF a, of "''communities''"]
      startswith_exclusive [OF a, of "''help''"] startswith_exclusive [OF a, of "''invite''"]
    by (auto simp: Command_process_def)
next
  assume a: "startswith (command c) ''rooms''"
  show "Command_process w H c s = Some (Command_rooms w H False c s)"
    using a startswith_exclusive [OF a, of "''breakout''"] startswith_exclusive [OF a, of "''communities''"]
      startswith_exclusive [OF a, of "''help''"] startswith_exclusive [OF a, of "''invite''"]
      startswith_exclusive [OF a, of "''power''"]
    by (auto simp: Command_process_def)
next
  assume a: "startswith (command c) ''spaces''"
  show "Command_process w H c s = Some (Command_rooms w H True c s)"
    using a startswith_exclusive [OF a, of "''breakout''"] startswith_exclusive [OF a, of "''communities''"]
      startswith_exclusive [OF a, of "''help''"] startswith_exclusive [OF a, of "''invite''"]
      startswith_exclusive [OF a, of "''power''"] startswith_exclusive [OF a, of "''rooms''"]
    by (auto simp: Command_process_def)
next
  assume a: "startswith (command c) ''users''"
  show "Command_process w H c s = Command_users w H c s"
    using a startswith_exclusive [OF a, of "''breakout''"] startswith_exclusive [OF a, of "''communities''"]
      startswith_exclusive [OF a, of "''help''"] startswith_exclusive [OF a, of "''invite''"]
      startswith_exclusive [OF a, of "''power''"] startswith_exclusive [OF a, of "''rooms''"]
      startswith_exclusive [OF a, of "''spaces''"]
    by (auto simp: Command_process_def)
qed

theorem prefix_routing_witness:
  "\<not> list_ex (startswith ''frobnicate now'') known_verbs
   \<and> Command_process (ex_world 0) ex_help (ex_command ''@carol:example.org'' ''frobnicate now'') (ex_state [])
     = Some ((ex_state [])\<lparr>effects := [SendText ''!room:example.org''
          (unknown_command_text ''frobnicate now'')]\<rparr>)
   \<and> Command_process (ex_world 0) ex_help (ex_command ''@carol:example.org'' ''help'') (ex_state [])
     = Some ((ex_state [])\<lparr>effects := [SendText ''!room:example.org'' ''help'']\<rparr>)"
proof -
  let ?c = "ex_command ''@carol:example.org'' ''frobnicate now''"
  let ?h = "ex_command ''@carol:example.org'' ''help''"
  have none: "\<forall>v \<in> set known_verbs. \<not> startswith (command ?c) v"
    by (simp add: known_verbs_def startswith_def ex_command_def)
  have hp: "startswith (command ?h) ''help''"
    by (simp add: startswith_def ex_command_def)
  have u: "Command_process (ex_world 0) ex_help ?c (ex_state [])
      = Some ((ex_state [])\<lparr>effects := effects (ex_state []) @ [SendText (room_id ?c) (unknown_command_text (command ?c))]\<rparr>)"
    using prefix_routing [of ?c "ex_world 0" ex_help "ex_state []"] none by blast
  have h: "Command_process (ex_world 0) ex_help ?h (ex_state []) = Some (Command_show_help (ex_world 0) ex_help ?h (ex_state []))"
    using prefix_routing [of ?h "ex_world 0" ex_help "ex_state []"] hp by blast
  have listed: "\<not> list_ex (startswith ''frobnicate now'') known_verbs"
    by (simp add: known_verbs_def startswith_def)
  show ?thesis
    using listed unfolding u h
    by (simp add: ex_command_def ex_state_def Command_show_help_def reply_def send_text_to_room_def
        ex_help_def)
qed

text \<open>
  C4 as stated fails: the first token of \<open>breakoutx now\<close> is \<open>breakoutx\<close>, no known verb,
  but the text starts with \<open>breakout\<close>, so a breakout room named \<open>now\<close> is created and
  registered instead of the unknown-command response.
\<close>

theorem first_token_routing_counterexample:
  "first_token ''breakoutx now'' = Some ''breakoutx''
   \<and> ''breakoutx'' \<notin> set known_verbs
   \<and> Command_process (ex_world 0) ex_help (ex_command ''@dave:example.org'' ''breakoutx now'') (ex_state [])
     = Some ((ex_state [])
         \<lparr>store := (store (ex_state []))\<lparr>breakout_rooms := [(''$event'', ''!breakout:example.org'')]\<rparr>,
          effects := [CreateBreakoutRoom ''now'' ''@dave:example.org'',
                      SendText ''!room:example.org'' (breakout_created_text ''now'')]\<rparr>)
   \<and> Command_process (ex_world 0) ex_help (ex_command ''@dave:example.org'' ''breakoutx now'') (ex_state [])
     \<noteq> Some (Command_unknown_command (ex_world 0)
                (ex_command ''@dave:example.org'' ''breakoutx now'') (ex_state []))"
  by (simp add: unknown_command_run first_token_def str_split_def isspace_def known_verbs_def Command_process_def
      startswith_def Command_breakout_def args_def ex_command_def ex_world_def ex_state_def
      ex_store_def send_text_to_room_def store_breakout_room_def Let_def)

subsection \<open>The arguments of rooms create\<close>

lemma ex_rooms_create_args:
  "args (ex_command who ''rooms create Lobby lobby parent yes maybe'')
     = [''create'', ''Lobby'', ''lobby'', ''parent'', ''yes'', ''maybe'']"
  "args (ex_command who ''rooms create Lobby lobby parent maybe yes'')
     = [''create'', ''Lobby'', ''lobby'', ''parent'', ''maybe'', ''yes'']"
  by (simp_all add: args_def ex_command_def str_split_def isspace_def)

lemma ex_rooms_create_params:
  "csv_reader ''Lobby lobby parent yes maybe''
     = [''Lobby'', ''lobby'', ''parent'', ''yes'', ''maybe'']"
  "csv_reader ''Lobby lobby parent maybe yes''
     = [''Lobby'', ''lobby'', ''parent'', ''maybe'', ''yes'']"
  by (simp_all add: csv_reader_def)

text \<open>
  C8. The check of the two trailing flags of \<open>rooms create\<close> tests the fourth parameter
  twice and the fifth never. Run by a coordinator, \<open>rooms create Lobby lobby parent yes
  maybe\<close> is not rejected: \<open>ensure_room_exists\<close> is called, with the fifth flag read as
  false. The same flags in the other order are rejected with the help text.
\<close>

theorem rooms_create_second_flag_unchecked:
  "Command_rooms (ex_world 0) ex_help False
      (ex_command ''@carol:example.org'' ''rooms create Lobby lobby parent yes maybe'') (ex_state [])
     = (ex_state [])\<lparr>effects :=
          [EnsureRoomExists (''Lobby'', ''lobby'', ''parent'', True, False, []),
           SendText ''!room:example.org'' ''Room Lobby (#lobby:example.org) created successfully.'']\<rparr>
   \<and> Command_rooms (ex_world 0) ex_help False
      (ex_command ''@carol:example.org'' ''rooms create Lobby lobby parent maybe yes'') (ex_state [])
     = (ex_state [])\<lparr>effects :=
          [SendText ''!room:example.org''
             (''Wrong number or bad arguments. Usage:'' @ [CHR 0x0A, CHR 0x0A] @ HELP_ROOMS ex_help)]\<rparr>"
proof -
  have gate: "Command_ensure_coordinator (ex_world 0) (ex_command ''@carol:example.org'' t) s = (True, s)"
    for t and s :: "(string list \<times> string list) State"
    by (simp add: Command_ensure_coordinator_def get_users_for_access_def ex_command_def ex_config_def)
  show ?thesis
    by (simp add: Command_rooms_def gate ex_rooms_create_args ex_rooms_create_params Let_def,
        simp add: ensure_room_exists_def send_if_text_def reply_def send_text_to_room_def
        ex_world_def ex_state_def ex_command_def ex_config_def ex_help_def)
qed

subsection \<open>Choosing a username\<close>

lemma str_nat_nonempty: "str_nat n \<noteq> []"
  by (subst str_nat.simps) simp

lemma digit_val_digit_char:
  assumes "d < 10"
  shows "digit_val (digit_char d) = Some d"
proof -
  have "d \<in> {0, 1, 2, 3, 4, 5, 6, 7, 8, 9}"
    using assms by auto
  then show ?thesis
    by (auto simp: digit_val_def digit_char_def)
qed

lemma digits_value_str_nat: "digits_value (str_nat n) = n"
proof (induction n rule: str_nat.induct)
  case (1 n)
  show ?case
  proof (cases "n < 10")
    case True
    then show ?thesis
      by (subst str_nat.simps) (simp add: digits_value_def digit_val_digit_char)
  next
    case False
    then have "digits_value (str_nat (n div 10)) = n div 10"
      using "1" by simp
    then show ?thesis
      using False
      by (subst str_nat.simps) (simp add: digits_value_def digit_val_digit_char)
  qed
qed

lemma str_nat_inj: "inj str_nat"
  by (rule inj_on_inverseI [where g = digits_value]) (simp add: digits_value_str_nat)

lemma some_suffix_free:
  assumes "finite {u. existing u}"
  shows "\<exists>k\<ge>1. \<not> existing (base @ str_nat k)"
proof (rule ccontr)
  assume "\<not> (\<exists>k\<ge>1. \<not> existing (base @ str_nat k))"
  then have "(\<lambda>k. base @ str_nat k) ` {1..} \<subseteq> {u. existing u}"
    by auto
  then have "finite ((\<lambda>k. base @ str_nat k) ` {1..})"
    using assms finite_subset by blast
  moreover have "inj_on (\<lambda>k. base @ str_nat k) {1..}"
    using str_nat_inj by (auto simp: inj_on_def dest: injD)
  ultimately have "finite {1::nat ..}"
    by (rule finite_imageD)
  then show False
    by (simp add: infinite_Ici)
qed

lemma find_username_reaches:
  assumes "\<not> existing (candidate_at base k)" and "candidate_at base k \<noteq> []"
    and "\<forall>j. counter \<le> j \<and> j < k \<longrightarrow> existing (candidate_at base j)" and "counter \<le> k"
  shows "find_username existing base (candidate_at base counter) counter = Some (candidate_at base k)"
  using assms
proof (induction "k - counter" arbitrary: counter)
  case 0
  then have "counter = k" by simp
  with "0.prems" show ?case
    by (subst find_username.simps) simp
next
  case (Suc d)
  then have less: "counter < k" by simp
  with Suc.prems have taken: "existing (candidate_at base counter)" by simp
  have next_candidate: "base @ str_nat (Suc counter) = candidate_at base (Suc counter)"
    by (simp add: candidate_at_def)
  have "find_username existing base (candidate_at base (counter + 1)) (counter + 1)
      = Some (candidate_at base k)"
    using Suc.hyps(2) Suc.prems less by (intro Suc.hyps(1)) auto
  then show ?case
    using taken by (subst find_username.simps) (simp add: next_candidate)
qed

text \<open>
  C7. The username candidate derived from the email collides: the lookup reports it as
  existing. The identity provider reports only finitely many names as existing (it
  answers from its accounts). Then the loop returns: it selects the candidate followed
  by the decimal counter \<open>k\<close>, for the least \<open>k\<close> from 1 on whose name the lookup reports
  free; every smaller suffix was reported existing, and the selected name is not the
  colliding candidate.
\<close>

theorem username_disambiguation:
  assumes "existing_user w cfg b (username_candidate_of email)"
    and "finite {u. existing_user w cfg b u}"
  shows "\<exists>k\<ge>1.
           find_username (existing_user w cfg b) (username_candidate_of email)
              (username_candidate_of email) 0 = Some (username_candidate_of email @ str_nat k)
         \<and> \<not> existing_user w cfg b (username_candidate_of email @ str_nat k)
         \<and> (\<forall>j. 1 \<le> j \<and> j < k \<longrightarrow> existing_user w cfg b (username_candidate_of email @ str_nat j))
         \<and> username_candidate_of email @ str_nat k \<noteq> username_candidate_of email"
proof -
  let ?base = "username_candidate_of email"
  let ?free = "\<lambda>k. 1 \<le> k \<and> \<not> existing_user w cfg b (?base @ str_nat k)"
  obtain k0 where "?free k0"
    using some_suffix_free [OF assms(2), of ?base] by blast
  define k where "k = (LEAST k. ?free k)"
  have free: "?free k"
    unfolding k_def using \<open>?free k0\<close> by (rule LeastI)
  have least: "\<not> ?free j" if "j < k" for j
    using that not_less_Least unfolding k_def by blast
  have at: "candidate_at ?base k = ?base @ str_nat k"
    using free by (simp add: candidate_at_def)
  have before: "\<forall>j. 0 \<le> j \<and> j < k \<longrightarrow> existing_user w cfg b (candidate_at ?base j)"
  proof (intro allI impI)
    fix j assume "0 \<le> j \<and> j < k"
    then show "existing_user w cfg b (candidate_at ?base j)"
      using least [of j] assms(1) by (cases "j = 0") (auto simp: candidate_at_def)
  qed
  have "find_username (existing_user w cfg b) ?base (candidate_at ?base 0) 0
      = Some (candidate_at ?base k)"
    using free before by (intro find_username_reaches) (simp_all add: at str_nat_nonempty)
  then have found: "find_username (existing_user w cfg b) ?base ?base 0 = Some (?base @ str_nat k)"
    by (simp add: at) (simp add: candidate_at_def)
  have earlier: "\<forall>j. 1 \<le> j \<and> j < k \<longrightarrow> existing_user w cfg b (?base @ str_nat j)"
    using least by blast
  show ?thesis
    using free found earlier str_nat_nonempty by (intro exI [of _ k]) simp
qed

lemma ex_existing_user:
  "existing_user (ex_world 0) ex_config ([], [''a'']) u \<longleftrightarrow> u = ''a''"
  by (simp add: existing_user_def get_user_by_attr_def ex_world_def ex_config_def)

lemma ex_username_candidate: "username_candidate_of ''a@x.com'' = ''a''"
  by (simp add: username_candidate_of_def lower_char_def)

theorem username_disambiguation_witness:
  "existing_user (ex_world 0) ex_config ([], [''a'']) (username_candidate_of ''a@x.com'')
   \<and> find_username (existing_user (ex_world 0) ex_config ([], [''a'']))
        (username_candidate_of ''a@x.com'') (username_candidate_of ''a@x.com'') 0 = Some ''a1''
   \<and> users_create_email (ex_world 0) (ex_command ''@alice:example.org'' ''users create a@x.com'')
        ''a@x.com'' (ex_state [])
      = Some (''Successfully create a@x.com!'',
              (ex_state [])\<lparr>backend := ([], [''a1'', ''a'']), effects := [SendUpdateAccount ''id-a1'']\<rparr>)"
proof -
  let ?w = "ex_world 0 :: (string list \<times> string list) World"
  let ?b = "([], [''a'']) :: string list \<times> string list"
  have collide: "existing_user ?w ex_config ?b (username_candidate_of ''a@x.com'')"
    by (simp add: ex_existing_user ex_username_candidate)
  have fin: "finite {u. existing_user ?w ex_config ?b u}"
    by (simp add: ex_existing_user)
  have one: "str_nat (Suc 0) = ''1''"
    by (subst str_nat.simps) (simp add: digit_char_def)
  obtain k where k: "1 \<le> k"
    and found: "find_username (existing_user ?w ex_config ?b) (username_candidate_of ''a@x.com'')
        (username_candidate_of ''a@x.com'') 0 = Some (username_candidate_of ''a@x.com'' @ str_nat k)"
    and earlier: "\<forall>j. 1 \<le> j \<and> j < k \<longrightarrow>
        existing_user ?w ex_config ?b (username_candidate_of ''a@x.com'' @ str_nat j)"
    using username_disambiguation [OF collide fin] by blast
  have "k = 1"
  proof (rule ccontr)
    assume "k \<noteq> 1"
    with k have "1 < k" by simp
    with earlier have "existing_user ?w ex_config ?b (username_candidate_of ''a@x.com'' @ str_nat 1)"
      by blast
    then show False
      by (simp add: ex_existing_user ex_username_candidate one)
  qed
  with found have name: "find_username (existing_user ?w ex_config ?b)
        (username_candidate_of ''a@x.com'') (username_candidate_of ''a@x.com'') 0 = Some ''a1''"
    by (simp add: ex_username_candidate one)
  have cfg: "config (ex_command ''@alice:example.org'' ''users create a@x.com'') = ex_config"
    and st: "backend (ex_state []) = ?b"
    by (simp_all add: ex_command_def ex_state_def)
  have email: "get_user_by_attr ?w ex_config ?b ''email'' ''a@x.com'' = Inr None"
    and valid: "validate_email_ext ?w ''a@x.com'' = Inr ''a@x.com''"
    and made: "create_user ?w ex_config ''a1'' ''a@x.com'' ?b = (Some ''id-a1'', ([], [''a1'', ''a'']))"
    by (simp_all add: get_user_by_attr_def create_user_def ex_world_def ex_config_def)
  have run: "users_create_email ?w (ex_command ''@alice:example.org'' ''users create a@x.com'')
        ''a@x.com'' (ex_state [])
      = Some (''Successfully create a@x.com!'',
              (ex_state [])\<lparr>backend := ([], [''a1'', ''a'']), effects := [SendUpdateAccount ''id-a1'']\<rparr>)"
    by (simp add: users_create_email_def cfg st email valid name made Let_def)
       (simp add: send_password_reset_def ex_config_def ex_state_def)
  show ?thesis
    using collide name run by simp
qed

text \<open>
  The loop counts a lookup that raises as an existing user. Whenever it returns, some
  name was reported free; if every lookup reports an existing user, it does not return.
\<close>

lemma find_username_taken_forever:
  assumes "find_username existing base candidate counter = Some name"
  shows "\<exists>u. \<not> existing u"
  using assms
proof (induction existing base candidate counter name
    rule: find_username.raw_induct [rotated 1, consumes 1, case_names step])
  case (step find_username existing username_candidate candidate counter name)
  show ?case
  proof (cases "existing candidate")
    case True
    with step.hyps show ?thesis
      using step.IH by simp
  next
    case False
    then show ?thesis by blast
  qed
qed

lemma find_username_never_free:
  assumes "\<forall>u. existing u"
  shows "find_username existing base candidate counter = None"
  using assms find_username_taken_forever [of existing base candidate counter]
  by (cases "find_username existing base candidate counter") auto

subsection \<open>Help\<close>




























subsection \<open>Breakout registration\<close>






subsection \<open>Ensuring a community exists\<close>

lemma ensure_community_exists_run:
  "ensure_community_exists w cfg (name, alias, title, long_description) x =
     (if requests_get w x (group_profile_url cfg alias) = 200 then ((''exists'', None), x)
      else
        (case requests_post_create_group w x (create_group_url cfg)
                (alias, name, title, long_description) of
           ((status_code, content), x1) \<Rightarrow>
             if status_code > 201
             then ((''error'', Some (str_nat status_code @ '' / '' @ content)), x1)
             else ((''created'', None), x1)))"
  by (simp add: ensure_community_exists_def group_profile_url_def create_group_url_def)

lemma ensure_community_exists_fixed:
  assumes "requests_get w b (group_profile_url cfg alias) = 200"
  shows "((\<lambda>x. snd (ensure_community_exists w cfg (name, alias, title, long_description) x)) ^^ n) b = b"
  by (induction n) (simp_all add: ensure_community_exists_run assms)

text \<open>
  C6, as amended. Take a backend that answers the profile request of the alias with
  200 exactly while the group exists (\<open>has_group\<close>), on which the group does not exist,
  and that accepts the create request (a status of at most 201) and then has the group.
  The first call returns \<open>created\<close>, the second \<open>exists\<close> with the backend untouched
  and whatever the create request would answer (none is sent), and so does every later
  call. In general a call returns \<open>exists\<close> exactly when the
  profile request answers 200; any other answer is taken as absence and the create
  request is sent, giving \<open>error\<close> with the status and the content for a status above
  201 and \<open>created\<close> otherwise.
\<close>

theorem ensure_community_exists_idempotent:
  "((\<forall>x. (requests_get w x (group_profile_url cfg alias) = 200) = has_group x)
      \<and> \<not> has_group b
      \<and> requests_post_create_group w b (create_group_url cfg) (alias, name, title, long_description)
          = ((status_code, content), b1)
      \<and> status_code \<le> 201
      \<and> has_group b1 \<longrightarrow>
      ensure_community_exists w cfg (name, alias, title, long_description) b = ((''created'', None), b1)
      \<and> ensure_community_exists w cfg (name, alias, title, long_description) b1 = ((''exists'', None), b1)
      \<and> (\<forall>post. ensure_community_exists (w\<lparr>requests_post_create_group := post\<rparr>) cfg
                   (name, alias, title, long_description) b1 = ((''exists'', None), b1))
      \<and> (\<forall>n. ((\<lambda>x. snd (ensure_community_exists w cfg (name, alias, title, long_description) x)) ^^ n) b1 = b1))
   \<and> ensure_community_exists w cfg (name, alias, title, long_description) x =
        (if requests_get w x (group_profile_url cfg alias) = 200 then ((''exists'', None), x)
         else
           (case requests_post_create_group w x (create_group_url cfg)
                   (alias, name, title, long_description) of
              ((status, body), x1) \<Rightarrow>
                if status > 201
                then ((''error'', Some (str_nat status @ '' / '' @ body)), x1)
                else ((''created'', None), x1)))"
proof (intro conjI impI)
  show "ensure_community_exists w cfg (name, alias, title, long_description) x =
        (if requests_get w x (group_profile_url cfg alias) = 200 then ((''exists'', None), x)
         else
           (case requests_post_create_group w x (create_group_url cfg)
                   (alias, name, title, long_description) of
              ((status, body), x1) \<Rightarrow>
                if status > 201
                then ((''error'', Some (str_nat status @ '' / '' @ body)), x1)
                else ((''created'', None), x1)))"
    by (rule ensure_community_exists_run)
next
  assume a: "(\<forall>x. (requests_get w x (group_profile_url cfg alias) = 200) = has_group x)
      \<and> \<not> has_group b
      \<and> requests_post_create_group w b (create_group_url cfg) (alias, name, title, long_description)
          = ((status_code, content), b1)
      \<and> status_code \<le> 201
      \<and> has_group b1"
  then have absent: "requests_get w b (group_profile_url cfg alias) \<noteq> 200"
    and served: "requests_get w b1 (group_profile_url cfg alias) = 200"
    by simp_all
  from a absent show "ensure_community_exists w cfg (name, alias, title, long_description) b = ((''created'', None), b1)"
    by (simp add: ensure_community_exists_run)
  from served show "ensure_community_exists w cfg (name, alias, title, long_description) b1 = ((''exists'', None), b1)"
    by (simp add: ensure_community_exists_run)
  from served show "\<forall>post. ensure_community_exists (w\<lparr>requests_post_create_group := post\<rparr>) cfg
      (name, alias, title, long_description) b1 = ((''exists'', None), b1)"
    by (simp add: ensure_community_exists_run)
  from served show "\<forall>n. ((\<lambda>x. snd (ensure_community_exists w cfg (name, alias, title, long_description) x)) ^^ n) b1 = b1"
    by (simp add: ensure_community_exists_fixed)
qed

lemma ex_profile_served:
  "(requests_get (ex_world 0) x (group_profile_url ex_config ''epic'') = 200) = (''epic'' \<in> set (fst x))"
  by (auto simp: ex_world_def group_profile_url_def ex_profile_url_def ex_config_def)

theorem ensure_community_exists_idempotent_witness:
  "ensure_community_exists (ex_world 0) ex_config ex_community ([], [''a''])
       = ((''created'', None), ([''epic''], [''a'']))
   \<and> ensure_community_exists (ex_world 0) ex_config ex_community ([''epic''], [''a''])
       = ((''exists'', None), ([''epic''], [''a'']))"
proof -
  let ?w = "ex_world 0 :: (string list \<times> string list) World"
  have served: "\<forall>x. (requests_get ?w x (group_profile_url ex_config ''epic'') = 200)
        = (''epic'' \<in> set (fst x))"
    by (simp add: ex_profile_served)
  have absent: "\<not> ''epic'' \<in> set (fst (([], [''a'']) :: string list \<times> string list))"
    and present: "''epic'' \<in> set (fst (([''epic''], [''a'']) :: string list \<times> string list))"
    by simp_all
  have p: "requests_post_create_group ?w ([], [''a'']) (create_group_url ex_config)
             (''epic'', ''My epic community'', ''The best community ever!'', None)
           = ((200, ''b'' @ [CHR 0x27] @ ''{}'' @ [CHR 0x27]), ([''epic''], [''a'']))"
    by (simp add: ex_world_def)
  have inst: "(\<forall>x. (requests_get ?w x (group_profile_url ex_config ''epic'') = 200)
            = (''epic'' \<in> set (fst x)))
      \<and> \<not> ''epic'' \<in> set (fst (([], [''a'']) :: string list \<times> string list))
      \<and> requests_post_create_group ?w ([], [''a'']) (create_group_url ex_config)
             (''epic'', ''My epic community'', ''The best community ever!'', None)
           = ((200, ''b'' @ [CHR 0x27] @ ''{}'' @ [CHR 0x27]), ([''epic''], [''a'']))
      \<and> (200 :: nat) \<le> 201
      \<and> ''epic'' \<in> set (fst (([''epic''], [''a'']) :: string list \<times> string list)) \<longrightarrow>
      ensure_community_exists ?w ex_config
          (''My epic community'', ''epic'', ''The best community ever!'', None) ([], [''a''])
        = ((''created'', None), ([''epic''], [''a'']))
      \<and> ensure_community_exists ?w ex_config
          (''My epic community'', ''epic'', ''The best community ever!'', None) ([''epic''], [''a''])
        = ((''exists'', None), ([''epic''], [''a'']))
      \<and> (\<forall>post. ensure_community_exists (?w\<lparr>requests_post_create_group := post\<rparr>) ex_config
          (''My epic community'', ''epic'', ''The best community ever!'', None) ([''epic''], [''a''])
        = ((''exists'', None), ([''epic''], [''a''])))
      \<and> (\<forall>n. ((\<lambda>x. snd (ensure_community_exists ?w ex_config
          (''My epic community'', ''epic'', ''The best community ever!'', None) x)) ^^ n)
            ([''epic''], [''a'']) = ([''epic''], [''a'']))"
    by (rule ensure_community_exists_idempotent [THEN conjunct1])
  have "ensure_community_exists ?w ex_config
          (''My epic community'', ''epic'', ''The best community ever!'', None) ([], [''a''])
        = ((''created'', None), ([''epic''], [''a'']))
      \<and> ensure_community_exists ?w ex_config
          (''My epic community'', ''epic'', ''The best community ever!'', None) ([''epic''], [''a''])
        = ((''exists'', None), ([''epic''], [''a'']))"
    using inst served absent present p by simp
  then show ?thesis
    by (simp add: ex_community_def)
qed

text \<open>
  C6 as stated fails: on a homeserver where the alias does not exist, the first call
  creates the group; while the homeserver answers the profile request with 429, the
  second call takes the group as absent, sends the create request again and returns
  \<open>error\<close>, not \<open>exists\<close>.
\<close>

theorem ensure_community_exists_throttled_counterexample:
  "requests_get ex_world_throttled ([], [''a'']) (group_profile_url ex_config ''epic'') \<noteq> 200
   \<and> ensure_community_exists ex_world_throttled ex_config ex_community ([], [''a''])
       = ((''created'', None), ([''epic''], [''a'']))
   \<and> ensure_community_exists ex_world_throttled ex_config ex_community ([''epic''], [''a''])
       = ((''error'', Some (''400 / b'' @ [CHR 0x27] @ ''Group already exists'' @ [CHR 0x27])),
          ([''epic''], [''a'']))"
proof -
  have s400: "str_nat 400 = ''400''"
    by (simp add: str_nat.simps digit_char_def)
  show ?thesis
    by (simp add: ensure_community_exists_def ex_world_throttled_def ex_world_def ex_community_def
        ex_config_def s400)
qed

end
